theory Spec2Isabelle
  imports Main
begin

section \<open>Batch checker (Node script)\<close>

text \<open>
  The checker probes the registry once per package name. What \<^verbatim>\<open>fetch\<close> does is
  the environment: either a response with an HTTP status, or a thrown network error.
  The registry is taken as a function of the package name.
\<close>

datatype fetch_result = Response nat | NetworkError

definition CONCURRENCY :: nat where
  "CONCURRENCY = 20"

definition checkPackageExists :: "(string \<Rightarrow> fetch_result) \<Rightarrow> string \<Rightarrow> bool" where
  "checkPackageExists fetch packageName =
     (case fetch packageName of Response st \<Rightarrow> st = 200 | NetworkError \<Rightarrow> False)"

record results =
  published :: "string list"
  unpublished :: "string list"

text \<open>\<^verbatim>\<open>packages.slice(i, j)\<close> for \<open>0 \<le> i \<le> j\<close>.\<close>

definition slice :: "'a list \<Rightarrow> nat \<Rightarrow> nat \<Rightarrow> 'a list" where
  "slice xs i j = take (j - i) (drop i xs)"

text \<open>The inner loop over \<^verbatim>\<open>batchResults\<close>: one push per probed package, in order.\<close>

fun collect :: "results \<Rightarrow> (string \<times> bool) list \<Rightarrow> results" where
  "collect r [] = r"
| "collect r ((pkg, exists) # rest) =
     (if exists then collect (r\<lparr>published := published r @ [pkg]\<rparr>) rest
      else collect (r\<lparr>unpublished := unpublished r @ [pkg]\<rparr>) rest)"

text \<open>The outer loop \<^verbatim>\<open>for (let i = 0; i < packages.length; i += CONCURRENCY)\<close>.\<close>

function batch_loop ::
  "(string \<Rightarrow> fetch_result) \<Rightarrow> string list \<Rightarrow> nat \<Rightarrow> results \<Rightarrow> results" where
  "batch_loop fetch packages i r =
     (if i < length packages
      then batch_loop fetch packages (i + CONCURRENCY)
             (collect r (map (\<lambda>pkg. (pkg, checkPackageExists fetch pkg))
                             (slice packages i (i + CONCURRENCY))))
      else r)"
  by pat_completeness auto
termination
  by (relation "measure (\<lambda>(fetch, packages, i, r). length packages - i)")
     (auto simp: CONCURRENCY_def)

definition check_all :: "(string \<Rightarrow> fetch_result) \<Rightarrow> string list \<Rightarrow> results" where
  "check_all fetch packages = batch_loop fetch packages 0 \<lparr>published = [], unpublished = []\<rparr>"

text \<open>
  The file \<^verbatim>\<open>unpublished-packages.txt\<close> is written only when something is
  unpublished: the names joined by newlines, with a final newline.
\<close>

fun join_lines :: "string list \<Rightarrow> string" where
  "join_lines [] = []"
| "join_lines [x] = x"
| "join_lines (x # y # ys) = x @ [CHR 0x0A] @ join_lines (y # ys)"

definition unpublished_file :: "results \<Rightarrow> string option" where
  "unpublished_file r =
     (if length (unpublished r) > 0 then Some (join_lines (unpublished r) @ [CHR 0x0A]) else None)"

section \<open>Publisher (shell script)\<close>

text \<open>
  What the script does to the outside world is a trace of events. The external commands
  are the environment: the \<open>i\<close>-th call of the secrets CLI prints \<open>otp env i\<close>, and
  the \<open>i\<close>-th publish command succeeds when \<open>pnpm_publish env i pkg otp\<close> holds.
  The package file is the list of its newline-terminated lines (\<open>None\<close>: no such file).
\<close>

datatype shell_event =
    Echo string
  | OpItemGet
  | PnpmPublish string string
  | Sleep nat
  | WriteFile string "string list"

record publisher_env =
  arg1 :: "string option"
  packages_file :: "string list option"
  op_available :: bool
  otp :: "nat \<Rightarrow> string"
  pnpm_publish :: "nat \<Rightarrow> string \<Rightarrow> string \<Rightarrow> bool"

record publisher_state =
  out :: "shell_event list"
  SUCCEEDED :: "string list"
  FAILED :: "string list"

definition SLEEP_SECONDS :: nat where
  "SLEEP_SECONDS = 5"

text \<open>\<^verbatim>\<open>PACKAGES_FILE="${1:-unpublished-packages.txt}"\<close>: the default also replaces an empty argument.\<close>

definition PACKAGES_FILE :: "publisher_env \<Rightarrow> string" where
  "PACKAGES_FILE env =
     (case arg1 env of None \<Rightarrow> ''unpublished-packages.txt''
      | Some a \<Rightarrow> if a = [] then ''unpublished-packages.txt'' else a)"

fun show_nat :: "nat \<Rightarrow> string" where
  "show_nat n =
     (if n < 10 then [char_of (48 + n)] else show_nat (n div 10) @ [char_of (48 + n mod 10)])"

declare show_nat.simps [simp del]

text \<open>\<^verbatim>\<open>read -r pkg\<close> strips leading and trailing blanks and tabs from the line.\<close>

definition is_ifs :: "char \<Rightarrow> bool" where
  "is_ifs c = (c = CHR '' '' \<or> c = CHR 0x09)"

definition read_r :: "string \<Rightarrow> string" where
  "read_r line = rev (dropWhile is_ifs (rev (dropWhile is_ifs line)))"

definition bar :: string where
  "bar = ''==========================================''"

definition echo :: "string list \<Rightarrow> publisher_state \<Rightarrow> publisher_state" where
  "echo ls st = st\<lparr>out := out st @ map Echo ls\<rparr>"

definition emit :: "shell_event list \<Rightarrow> publisher_state \<Rightarrow> publisher_state" where
  "emit es st = st\<lparr>out := out st @ es\<rparr>"

text \<open>
  The \<^verbatim>\<open>while read -r pkg\<close> loop: \<open>publish_one\<close> is its body for one line, with
  the counter already incremented, and \<open>header\<close> what the body does up to and including
  the call of the secrets CLI. \<open>Inl\<close> is \<^verbatim>\<open>exit 1\<close> from inside the loop, with the
  state at that moment; \<open>Inr\<close> is the state after the body, or after the last line.
\<close>

definition header :: "nat \<Rightarrow> nat \<Rightarrow> string \<Rightarrow> shell_event list" where
  "header TOTAL i' line =
     [Echo bar,
      Echo (''['' @ show_nat i' @ ''/'' @ show_nat TOTAL @ ''] Publishing '' @ read_r line),
      Echo bar,
      OpItemGet]"

definition publish_one ::
  "publisher_env \<Rightarrow> nat \<Rightarrow> nat \<Rightarrow> string \<Rightarrow> publisher_state
     \<Rightarrow> publisher_state + publisher_state" where
  "publish_one env TOTAL i' line st =
     (let pkg = read_r line;
          st1 = emit (header TOTAL i' line) st;
          OTP = otp env i'
      in if OTP = [] then Inl (echo [''Error: Could not get OTP from 1Password''] st1)
         else
           let st2 = emit [PnpmPublish pkg OTP] st1;
               st3 = (if pnpm_publish env i' pkg OTP
                      then (echo [[CHR 0xE2, CHR 0x9C, CHR 0x93] @ '' Successfully published '' @ pkg] st2)
                             \<lparr>SUCCEEDED := SUCCEEDED st2 @ [pkg]\<rparr>
                      else (echo [[CHR 0xE2, CHR 0x9C, CHR 0x97] @ '' Failed to publish '' @ pkg] st2)
                             \<lparr>FAILED := FAILED st2 @ [pkg]\<rparr>);
               st4 = (if i' < TOTAL
                      then emit [Sleep SLEEP_SECONDS]
                             (echo [''Waiting '' @ show_nat SLEEP_SECONDS @ ''s before next publish...''] st3)
                      else st3)
           in Inr (echo [[]] st4))"

fun publish_loop ::
  "publisher_env \<Rightarrow> nat \<Rightarrow> nat \<Rightarrow> string list \<Rightarrow> publisher_state
     \<Rightarrow> publisher_state + publisher_state" where
  "publish_loop env TOTAL i [] st = Inr st"
| "publish_loop env TOTAL i (line # rest) st =
     (case publish_one env TOTAL (i + 1) line st of
        Inl st' \<Rightarrow> Inl st'
      | Inr st' \<Rightarrow> publish_loop env TOTAL (i + 1) rest st')"

text \<open>\<^verbatim>\<open>${FAILED[*]}\<close>: the elements joined by single blanks.\<close>

fun join_blank :: "string list \<Rightarrow> string" where
  "join_blank [] = []"
| "join_blank [x] = x"
| "join_blank (x # y # ys) = x @ '' '' @ join_blank (y # ys)"

definition retry_lines :: "string list \<Rightarrow> string list" where
  "retry_lines failed =
     [[], ''Failed packages:'']
     @ map (\<lambda>pkg. ''  - '' @ pkg) failed
     @ [[],
        ''To retry failed packages, run:'',
        ''  printf '' @ [CHR 0x27] @ ''%s'' @ [CHR 0x5C] @ ''n'' @ [CHR 0x27] @ '' ''
           @ join_blank failed @ '' > failed-packages.txt'',
        ''  ./tools/npm-trusted-publisher/publish-unpublished.sh failed-packages.txt'']"

definition summary :: "publisher_state \<Rightarrow> publisher_state" where
  "summary st =
     (let st1 = echo [bar, ''SUMMARY'', bar,
                      ''Succeeded: '' @ show_nat (length (SUCCEEDED st)),
                      ''Failed: '' @ show_nat (length (FAILED st))] st;
          st2 = (if length (FAILED st1) > 0 then echo (retry_lines (FAILED st1)) st1 else st1)
      in echo [bar] st2)"

text \<open>The state when the loop starts: the two lines printed after the checks.\<close>

definition initial_state :: "nat \<Rightarrow> publisher_state" where
  "initial_state TOTAL =
     echo [''Publishing '' @ show_nat TOTAL @ '' packages...'', []]
       \<lparr>out = [], SUCCEEDED = [], FAILED = []\<rparr>"

text \<open>The whole script: exit status and final state.\<close>

definition publisher :: "publisher_env \<Rightarrow> nat \<times> publisher_state" where
  "publisher env =
     (let st0 = \<lparr>out = [], SUCCEEDED = [], FAILED = []\<rparr>
      in case packages_file env of
           None \<Rightarrow> (1, echo [''Error: '' @ PACKAGES_FILE env @ '' not found''] st0)
         | Some lines \<Rightarrow>
             if \<not> op_available env
             then (1, echo [''Error: 1Password CLI (op) not found. Install it from https://1password.com/downloads/command-line/''] st0)
             else
               let TOTAL = length lines
               in (case publish_loop env TOTAL 0 lines (initial_state TOTAL) of
                     Inl st' \<Rightarrow> (1, st')
                   | Inr st' \<Rightarrow> (0, summary st')))"

definition is_WriteFile :: "shell_event \<Rightarrow> bool" where
  "is_WriteFile e = (case e of WriteFile f ls \<Rightarrow> True | _ \<Rightarrow> False)"

definition is_PnpmPublish :: "shell_event \<Rightarrow> bool" where
  "is_PnpmPublish e = (case e of PnpmPublish p t \<Rightarrow> True | _ \<Rightarrow> False)"

section \<open>Browser extension: the shared record\<close>

text \<open>
  The record stored under \<^verbatim>\<open>trustedPublisherState\<close>. A bucket that is absent in an
  older stored record is the empty list here (every reader replaces it by \<^verbatim>\<open>[]\<close>
  before use). \<open>mode\<close> is \<open>None\<close> when the field is absent.
\<close>

datatype status = Idle | Running | Paused

record tp_config =
  owner :: string
  repository :: string
  workflow :: string
  environment :: string
  navigationMode :: string
  autoSubmit :: bool
  delay :: int
  mode :: "string option"

record tp_state =
  status :: status
  packages :: "string list"
  currentIndex :: nat
  completed :: "string list"
  failed :: "string list"
  skipped :: "string list"
  config :: tp_config

text \<open>
  The \<^verbatim>\<open>packageResult\<close> message. A flag that the sender leaves out is \<open>False\<close>; the
  field \<^verbatim>\<open>completed\<close> is \<open>completedFlag\<close> here, and \<^verbatim>\<open>error\<close> is \<open>errorText\<close>.
\<close>

record message =
  success :: bool
  packageName :: string
  errorText :: "string option"
  alreadyConfigured :: bool
  notFound :: bool
  completedFlag :: bool
  waiting :: bool

definition packageResult :: "bool \<Rightarrow> string \<Rightarrow> message" where
  "packageResult ok name =
     \<lparr>success = ok, packageName = name, errorText = None, alreadyConfigured = False,
      notFound = False, completedFlag = False, waiting = False\<rparr>"

text \<open>\<^verbatim>\<open>xs[i]\<close>: \<open>None\<close> is JavaScript's \<^verbatim>\<open>undefined\<close> for an index out of range.\<close>

definition nth_opt :: "'a list \<Rightarrow> nat \<Rightarrow> 'a option" where
  "nth_opt xs i = (if i < length xs then Some (xs ! i) else None)"

definition currentPackage :: "tp_state \<Rightarrow> string option" where
  "currentPackage st = nth_opt (packages st) (currentIndex st)"

text \<open>\<^verbatim>\<open>if (!xs.includes(x)) xs.push(x)\<close>.\<close>

definition push_if_absent :: "string list \<Rightarrow> string \<Rightarrow> string list" where
  "push_if_absent xs x = (if x \<in> set xs then xs else xs @ [x])"

text \<open>\<^verbatim>\<open>xs.filter((p) => p !== x)\<close>.\<close>

definition without :: "string list \<Rightarrow> string \<Rightarrow> string list" where
  "without xs x = filter (\<lambda>p. p \<noteq> x) xs"

definition packageUrl :: "string \<Rightarrow> string" where
  "packageUrl pkg = ''https://www.npmjs.com/package/'' @ pkg @ ''/access''"

subsection \<open>Strings\<close>

text \<open>
  Strings are byte strings. \<^verbatim>\<open>trim\<close> removes the ASCII white space (tab, line feed,
  vertical tab, form feed, carriage return, blank) at both ends.
\<close>

definition isSpace :: "char \<Rightarrow> bool" where
  "isSpace c = (c \<in> set [CHR 0x09, CHR 0x0A, CHR 0x0B, CHR 0x0C, CHR 0x0D, CHR 0x20])"

definition trim :: "string \<Rightarrow> string" where
  "trim s = rev (dropWhile isSpace (rev (dropWhile isSpace s)))"

text \<open>\<^verbatim>\<open>text.split(sep)\<close> for a one-character separator: never the empty list.\<close>

fun split :: "char \<Rightarrow> string \<Rightarrow> string list" where
  "split sep [] = [[]]"
| "split sep (c # cs) =
     (if c = sep then [] # split sep cs
      else (case split sep cs of [] \<Rightarrow> [[c]] | x # xs \<Rightarrow> (c # x) # xs))"

fun startsWith :: "string \<Rightarrow> string \<Rightarrow> bool" where
  "startsWith s [] = True"
| "startsWith [] (p # ps) = False"
| "startsWith (c # cs) (p # ps) = (c = p \<and> startsWith cs ps)"

fun str_includes :: "string \<Rightarrow> string \<Rightarrow> bool" where
  "str_includes [] n = (n = [])"
| "str_includes (c # cs) n = (startsWith (c # cs) n \<or> str_includes cs n)"

definition toLowerCase :: "string \<Rightarrow> string" where
  "toLowerCase s =
     map (\<lambda>c. if (65::nat) \<le> of_char c \<and> of_char c \<le> (90::nat)
              then char_of (of_char c + (32::nat)) else c) s"

definition show_int :: "int \<Rightarrow> string" where
  "show_int i = (if i < 0 then ''-'' @ show_nat (nat (- i)) else show_nat (nat i))"

text \<open>
  \<^verbatim>\<open>parseInt(s, 10)\<close>: leading white space, an optional sign, then the longest run of
  decimal digits; \<open>None\<close> is \<^verbatim>\<open>NaN\<close>.
\<close>

definition isDigit :: "char \<Rightarrow> bool" where
  "isDigit c = ((48::nat) \<le> of_char c \<and> of_char c \<le> (57::nat))"

definition digits_value :: "string \<Rightarrow> int" where
  "digits_value ds = foldl (\<lambda>acc c. 10 * acc + (int (of_char c) - 48)) 0 ds"

definition parseInt :: "string \<Rightarrow> int option" where
  "parseInt s =
     (let t = dropWhile isSpace s;
          neg = (case t of [] \<Rightarrow> False | c # cs \<Rightarrow> c = CHR ''-'');
          u = (case t of [] \<Rightarrow> [] | c # cs \<Rightarrow> if c = CHR ''-'' \<or> c = CHR ''+'' then cs else t);
          ds = takeWhile isDigit u
      in if ds = [] then None
         else Some (if neg then - digits_value ds else digits_value ds))"

section \<open>Controller (popup)\<close>

text \<open>
  The popup's world: its in-memory \<open>state\<close>, the stored record, the form inputs, the URL
  the active tab was last sent to, the status line (text and kind), and the delays, in
  milliseconds, of the advance timers it has scheduled. Each handler runs as one step;
  \<open>saveState\<close> stores the record as it is at the moment of the call.
\<close>

record form_inputs =
  el_owner :: string
  el_repository :: string
  el_workflow :: string
  el_environment :: string
  el_navigationMode :: string
  el_autoSubmit :: string
  el_delay :: string
  el_packages :: string

record popup =
  state :: tp_state
  storage :: "tp_state option"
  elements :: form_inputs
  tabUrl :: "string option"
  statusMessage :: "string \<times> string"
  timers :: "int list"

definition saveState :: "popup \<Rightarrow> popup" where
  "saveState w = w\<lparr>storage := Some (state w)\<rparr>"

definition showStatus :: "string \<Rightarrow> string \<Rightarrow> popup \<Rightarrow> popup" where
  "showStatus text kind w = w\<lparr>statusMessage := (text, kind)\<rparr>"

definition configFromForm :: "form_inputs \<Rightarrow> tp_config" where
  "configFromForm e =
     \<lparr>owner = trim (el_owner e),
      repository = trim (el_repository e),
      workflow = trim (el_workflow e),
      environment = trim (el_environment e),
      navigationMode = el_navigationMode e,
      autoSubmit = (el_autoSubmit e = ''true''),
      delay = (case parseInt (el_delay e) of None \<Rightarrow> 2 | Some n \<Rightarrow> if n = 0 then 2 else n),
      mode = None\<rparr>"

definition saveConfig :: "popup \<Rightarrow> popup" where
  "saveConfig w = saveState (w\<lparr>state := (state w)\<lparr>config := configFromForm (elements w)\<rparr>\<rparr>)"

definition parsePackages :: "string \<Rightarrow> string list" where
  "parsePackages text =
     filter (\<lambda>line. line \<noteq> [] \<and> \<not> startsWith line ''#'')
       (map trim (split (CHR 0x0A) text))"

definition processCurrentPackage :: "popup \<Rightarrow> popup" where
  "processCurrentPackage w =
     (if status (state w) \<noteq> Running then w
      else if currentIndex (state w) \<ge> length (packages (state w))
      then showStatus ''All packages processed!'' ''success''
             (saveState (w\<lparr>state := (state w)\<lparr>status := Idle\<rparr>\<rparr>))
      else
        let pkg = packages (state w) ! currentIndex (state w)
        in (showStatus (''Processing: '' @ pkg) ''info'' w)\<lparr>tabUrl := Some (packageUrl pkg)\<rparr>)"

definition handleStart :: "popup \<Rightarrow> popup" where
  "handleStart w =
     (let w1 = saveConfig w;
          w2 = w1\<lparr>state := (state w1)\<lparr>packages := parsePackages (el_packages (elements w1))\<rparr>\<rparr>
      in if length (packages (state w2)) = 0
         then showStatus ''Please enter at least one package'' ''error'' w2
         else if owner (config (state w2)) = [] \<or> repository (config (state w2)) = []
                 \<or> workflow (config (state w2)) = []
         then showStatus ''Please fill in all GitHub configuration fields'' ''error'' w2
         else
           processCurrentPackage
             (saveState
                (w2\<lparr>state := (state w2)\<lparr>status := Running, currentIndex := 0, completed := [],
                                         failed := [], skipped := []\<rparr>\<rparr>)))"

definition handlePause :: "popup \<Rightarrow> popup" where
  "handlePause w =
     showStatus ''Paused'' ''warning'' (saveState (w\<lparr>state := (state w)\<lparr>status := Paused\<rparr>\<rparr>))"

definition handleResume :: "popup \<Rightarrow> popup" where
  "handleResume w =
     processCurrentPackage
       (showStatus ''Resumed'' ''info'' (saveState (w\<lparr>state := (state w)\<lparr>status := Running\<rparr>\<rparr>)))"

definition handleReset :: "popup \<Rightarrow> popup" where
  "handleReset w =
     showStatus ''Reset complete'' ''info''
       (saveState
          (w\<lparr>state := (state w)\<lparr>status := Idle, currentIndex := 0, completed := [],
                                 failed := [], skipped := []\<rparr>\<rparr>))"

text \<open>
  \<^verbatim>\<open>handleNext\<close>; \<open>nextRecorded\<close> is its first statement, the mark on the current
  package. The test \<^verbatim>\<open>currentPkg && ...\<close> holds for a name that is there and is not the
  empty string.
\<close>

definition nextRecorded :: "tp_state \<Rightarrow> tp_state" where
  "nextRecorded s =
     (case currentPackage s of
        None \<Rightarrow> s
      | Some currentPkg \<Rightarrow>
          if currentPkg \<noteq> [] \<and> currentPkg \<notin> set (completed s) \<and> currentPkg \<notin> set (failed s)
          then s\<lparr>completed := completed s @ [currentPkg]\<rparr>
          else s)"

definition handleNext :: "popup \<Rightarrow> popup" where
  "handleNext w =
     (let s1 = nextRecorded (state w);
          s2 = s1\<lparr>currentIndex := currentIndex s1 + 1\<rparr>;
          w1 = saveState (w\<lparr>state := s2\<rparr>)
      in if currentIndex s2 \<ge> length (packages s2)
         then showStatus ''All packages processed!'' ''success''
                (saveState (w1\<lparr>state := s2\<lparr>status := Idle\<rparr>\<rparr>))
         else processCurrentPackage w1)"

text \<open>
  \<^verbatim>\<open>handlePackageResult\<close>. The handler reads \<^verbatim>\<open>success\<close>, \<^verbatim>\<open>packageName\<close>,
  \<^verbatim>\<open>error\<close>, \<^verbatim>\<open>alreadyConfigured\<close>, \<^verbatim>\<open>notFound\<close> and \<^verbatim>\<open>completed\<close> of the message, and
  nothing else. \<open>recordOutcome\<close> is its bucket update for a success report, with the
  status line that goes with it.
\<close>

definition recordOutcome :: "message \<Rightarrow> tp_state \<Rightarrow> tp_state \<times> (string \<times> string)" where
  "recordOutcome m s =
     (if alreadyConfigured m \<and> \<not> completedFlag m
      then (s\<lparr>skipped := push_if_absent (skipped s) (packageName m),
              completed := without (completed s) (packageName m)\<rparr>,
            (''Already configured: '' @ packageName m, ''info''))
      else if notFound m
      then (s\<lparr>skipped := push_if_absent (skipped s) (packageName m)\<rparr>,
            (''Not found (404): '' @ packageName m, ''warning''))
      else (s\<lparr>completed := push_if_absent (completed s) (packageName m),
              skipped := without (skipped s) (packageName m)\<rparr>,
            (''Success: '' @ packageName m, ''success'')))"

definition handlePackageResult :: "message \<Rightarrow> popup \<Rightarrow> popup" where
  "handlePackageResult m w =
     (if success m
      then
        let s1 = fst (recordOutcome m (state w));
            w1 = w\<lparr>state := s1, statusMessage := snd (recordOutcome m (state w))\<rparr>;
            shouldAutoAdvance =
              (alreadyConfigured m \<or> notFound m
               \<or> (navigationMode (config s1) = ''auto'' \<and> status s1 = Running))
        in if shouldAutoAdvance \<and> status s1 = Running
           then
             let s2 = s1\<lparr>currentIndex := currentIndex s1 + 1\<rparr>
             in if currentIndex s2 < length (packages s2)
                then saveState
                       (w1\<lparr>state := s2,
                           statusMessage :=
                             (''Waiting ''
                                @ (if alreadyConfigured m \<or> notFound m then ''0.5''
                                   else show_int (delay (config s2)))
                                @ ''s before next package...'', ''info''),
                           timers := timers w1
                             @ [if alreadyConfigured m \<or> notFound m then 500
                                else delay (config s2) * 1000]\<rparr>)
                else saveState
                       (w1\<lparr>state := s2\<lparr>status := Idle\<rparr>,
                           statusMessage := (''All packages processed!'', ''success'')\<rparr>)
           else saveState w1
      else
        saveState
          (w\<lparr>state := (state w)\<lparr>failed := push_if_absent (failed (state w)) (packageName m)\<rparr>,
             statusMessage :=
               (''Failed: '' @ packageName m @ '' - ''
                  @ (case errorText m of None \<Rightarrow> ''undefined'' | Some e \<Rightarrow> e), ''error'')\<rparr>))"

text \<open>The \<^verbatim>\<open>change\<close> listener of the package field.\<close>

definition packagesChanged :: "popup \<Rightarrow> popup" where
  "packagesChanged w =
     saveState (w\<lparr>state := (state w)\<lparr>packages := parsePackages (el_packages (elements w))\<rparr>\<rparr>)"

text \<open>
  The buttons as \<^verbatim>\<open>updateUI\<close> leaves them after every handler: which of them are
  disabled.
\<close>

definition startBtn_disabled :: "popup \<Rightarrow> bool" where
  "startBtn_disabled w = (status (state w) = Running)"

definition pauseBtn_disabled :: "popup \<Rightarrow> bool" where
  "pauseBtn_disabled w = (\<not> status (state w) = Running)"

definition resumeBtn_disabled :: "popup \<Rightarrow> bool" where
  "resumeBtn_disabled w = (\<not> status (state w) = Paused)"

definition nextBtn_disabled :: "popup \<Rightarrow> bool" where
  "nextBtn_disabled w =
     (\<not> status (state w) = Running \<or> \<not> navigationMode (config (state w)) = ''manual'')"

text \<open>The callback of an advance timer.\<close>

definition timerFired :: "popup \<Rightarrow> popup" where
  "timerFired w = (if status (state w) = Running then processCurrentPackage w else w)"

text \<open>
  The \<^verbatim>\<open>chrome.storage.onChanged\<close> listener, for a new stored record: the popup's state
  becomes that record (every field of it is there), and the status line follows.
\<close>

definition storageChanged :: "tp_state \<Rightarrow> popup \<Rightarrow> popup" where
  "storageChanged newState w =
     (let w1 = w\<lparr>state := newState\<rparr>
      in if status newState = Idle \<and> currentIndex newState \<ge> length (packages newState)
         then showStatus ''All packages processed!'' ''success'' w1
         else if status newState = Running
         then (case currentPackage newState of
                 None \<Rightarrow> w1
               | Some currentPkg \<Rightarrow>
                   if currentPkg \<noteq> [] then showStatus (''Processing: '' @ currentPkg) ''info'' w1
                   else w1)
         else w1)"

section \<open>Page Agent (content script)\<close>

text \<open>
  What the agent reads from the document, as one snapshot per classification pass:
  title, body text and path; the package name that \<^verbatim>\<open>getPackageName()\<close> extracts from
  the path (\<open>None\<close>: no match); which selectors match; the text of every button, of
  every element matched by the success selectors, and of the notification region; which
  form fields exist; and whether the owner field shows up within the first wait, or
  within the second wait after the reveal button was clicked.
\<close>

record page =
  title :: string
  bodyText :: string
  pathname :: string
  urlPackageName :: "string option"
  hasH1 :: bool
  hasPackageClass :: bool
  hasAccessLink :: bool
  buttons :: "string list"
  hasMainWrapper :: bool
  hasTurnstileIframe :: bool
  hasTurnstileWidget :: bool
  hasOtpInput :: bool
  alertTexts :: "string list"
  notificationText :: "string option"
  formFieldIds :: "string list"
  ownerFieldAppears :: bool
  ownerFieldAppearsAfterClick :: bool

text \<open>What the agent does: the effects of a pass, in the order of the source.\<close>

datatype effect =
    SendMessage message
  | StorageSet tp_state
  | NavigateAfter nat string
  | SetInput string string
  | Click string
  | StartObserver string

definition isNotFoundPage :: "page \<Rightarrow> bool" where
  "isNotFoundPage p =
     (if str_includes (bodyText p) ([CHR 0x22] @ ''message'' @ [CHR 0x22] @ '':'' @ [CHR 0x22] @ ''Not Found'' @ [CHR 0x22])
         \<or> str_includes (bodyText p) ([CHR 0x22] @ ''message'' @ [CHR 0x22] @ '': '' @ [CHR 0x22] @ ''Not Found'' @ [CHR 0x22])
      then True
      else if str_includes (title p) ''404'' \<or> str_includes (title p) ''not found''
      then True
      else
        let hasPackageHeader = (hasH1 p \<or> hasPackageClass p);
            hasSettingsTab = (hasAccessLink p \<or> buttons p \<noteq> [])
        in \<not> hasPackageHeader \<and> \<not> hasSettingsTab \<and> length (bodyText p) < 500)"

definition isAlreadyConfigured :: "tp_config \<Rightarrow> page \<Rightarrow> bool" where
  "isAlreadyConfigured cfg p =
     (let hasOwnerRepo = str_includes (bodyText p) (owner cfg @ ''/'' @ repository cfg);
          hasWorkflow = str_includes (bodyText p) (workflow cfg)
      in if \<not> hasOwnerRepo \<or> \<not> hasWorkflow then False
         else list_ex (\<lambda>b. trim b = ''Edit'') (buttons p)
              \<and> list_ex (\<lambda>b. trim b = ''Delete'') (buttons p))"

definition hasDeleteButton :: "page \<Rightarrow> bool" where
  "hasDeleteButton p = list_ex (\<lambda>b. trim b = ''Delete'') (buttons p)"

definition clickDeleteButton :: "page \<Rightarrow> bool" where
  "clickDeleteButton p = list_ex (\<lambda>b. trim b = ''Delete'') (buttons p)"

definition clickGitHubActionsButton :: "page \<Rightarrow> bool" where
  "clickGitHubActionsButton p = list_ex (\<lambda>b. str_includes b ''GitHub Actions'') (buttons p)"

definition clickSetupButton :: "page \<Rightarrow> bool" where
  "clickSetupButton p =
     list_ex (\<lambda>b. str_includes (toLowerCase b) ''set up connection''
                 \<or> str_includes (toLowerCase b) ''setup connection'') (buttons p)"

definition hasTurnstileChallenge :: "page \<Rightarrow> bool" where
  "hasTurnstileChallenge p =
     (if str_includes (title p) ''Just a moment'' then True
      else if hasMainWrapper p \<and> str_includes (bodyText p) ''Verify you are human'' then True
      else if hasTurnstileIframe p then True
      else if hasTurnstileWidget p then True
      else if hasOtpInput p then True
      else if str_includes (bodyText p) ''Ray ID:'' then True
      else False)"

definition checkForSuccess :: "page \<Rightarrow> bool" where
  "checkForSuccess p =
     list_ex (\<lambda>t. str_includes t ''Successfully'' \<or> str_includes t ''successfully'') (alertTexts p)"

definition checkForError :: "page \<Rightarrow> string option" where
  "checkForError p =
     (case notificationText p of
        None \<Rightarrow> None
      | Some t \<Rightarrow>
          if str_includes t ''error'' \<or> str_includes t ''Error'' \<or> str_includes t ''failed''
          then Some t else None)"

definition isAccessPage :: "page \<Rightarrow> bool" where
  "isAccessPage p = str_includes (pathname p) ''/access''"

definition getPackageName :: "page \<Rightarrow> string option" where
  "getPackageName p = urlPackageName p"

text \<open>
  \<^verbatim>\<open>fillForm\<close>: each of the four fields that exists gets its value; the result says
  whether any did.
\<close>

definition formFields :: "tp_config \<Rightarrow> (string \<times> string) list" where
  "formFields cfg =
     [(''oidc_repositoryOwner'', owner cfg),
      (''oidc_repositoryName'', repository cfg),
      (''oidc_workflowName'', workflow cfg),
      (''oidc_githubEnvironmentName'', environment cfg)]"

definition fillForm :: "tp_config \<Rightarrow> page \<Rightarrow> effect list" where
  "fillForm cfg p =
     map (\<lambda>(i, v). SetInput i v) (filter (\<lambda>(i, v). i \<in> set (formFieldIds p)) (formFields cfg))"

text \<open>
  \<^verbatim>\<open>waitForChallengeCompletion\<close>, on a clock that ticks with the poll timer:
  \<open>challengeAt t\<close> says whether the challenge is there \<open>t\<close> milliseconds after the start.
  The result is the promise's value and the time it took.
\<close>

function waitForChallengeCompletion :: "(nat \<Rightarrow> bool) \<Rightarrow> nat \<Rightarrow> nat \<Rightarrow> bool \<times> nat" where
  "waitForChallengeCompletion challengeAt timeout elapsed =
     (if \<not> challengeAt elapsed then (True, elapsed)
      else if elapsed > timeout then (False, elapsed)
      else waitForChallengeCompletion challengeAt timeout (elapsed + 500))"
  by pat_completeness auto
termination
  by (relation "measure (\<lambda>(challengeAt, timeout, elapsed). timeout + 500 - elapsed)") auto

text \<open>
  \<^verbatim>\<open>setupSuccessObserver\<close>: nothing when an observer is already running. What the
  observer does on a mutation is \<open>observerMutation\<close>, for the document as it is then and
  the record as it is stored then.
\<close>

definition setupSuccessObserver :: "bool \<Rightarrow> string \<Rightarrow> effect list" where
  "setupSuccessObserver observing name = (if observing then [] else [StartObserver name])"

definition observerMutation :: "page \<Rightarrow> string \<Rightarrow> tp_state option \<Rightarrow> effect list" where
  "observerMutation p name stored =
     (if checkForSuccess p
      then SendMessage ((packageResult True name)\<lparr>completedFlag := True\<rparr>)
           # (case stored of
                None \<Rightarrow> []
              | Some st \<Rightarrow> [StorageSet (st\<lparr>completed := push_if_absent (completed st) name\<rparr>)])
      else (case checkForError p of
              None \<Rightarrow> []
            | Some e \<Rightarrow> if e = [] then []
                        else [SendMessage ((packageResult False name)\<lparr>errorText := Some e\<rparr>)]))"

text \<open>
  The step shared by the branches that are done with a package: move the cursor, then
  either finish (\<open>idle\<close>, stored) or store and schedule the navigation to the next page.
\<close>

definition advance :: "tp_state \<Rightarrow> effect list" where
  "advance st =
     (let st1 = st\<lparr>currentIndex := currentIndex st + 1\<rparr>
      in if currentIndex st1 \<ge> length (packages st1)
         then [StorageSet (st1\<lparr>status := Idle\<rparr>)]
         else [StorageSet st1,
               NavigateAfter 500 (packageUrl (packages st1 ! currentIndex st1))])"

text \<open>
  The report of a challenge found on load. With the cursor past the end the source
  sends the report without a package name; that report is left out here.
\<close>

definition waitingReport :: "tp_state \<Rightarrow> effect list" where
  "waitingReport st =
     (case currentPackage st of
        None \<Rightarrow> []
      | Some name \<Rightarrow>
          [SendMessage ((packageResult False name)
             \<lparr>errorText := Some ''Waiting for Cloudflare challenge...'', waiting := True\<rparr>)])"

text \<open>
  Delete mode, for the expected package \<open>name\<close>. After the wait for a challenge the
  source reads the stored record again; it is the same record here.
\<close>

definition deleteMode :: "tp_state \<Rightarrow> bool \<Rightarrow> page \<Rightarrow> string \<Rightarrow> effect list" where
  "deleteMode st observing p name =
     (if hasTurnstileChallenge p
      then [SendMessage ((packageResult False name)
              \<lparr>errorText := Some ''Waiting for challenge completion...'', waiting := True\<rparr>)]
      else [])
     @ (if \<not> hasDeleteButton p
        then advance (st\<lparr>skipped := push_if_absent (skipped st) name\<rparr>)
             @ [SendMessage ((packageResult True name)\<lparr>alreadyConfigured := True\<rparr>)]
        else setupSuccessObserver observing name
             @ (if \<not> clickDeleteButton p
                then [SendMessage ((packageResult False name)
                        \<lparr>errorText := Some ''Failed to click Delete button''\<rparr>)]
                else [Click ''Delete'']))"

text \<open>Configure mode, for the expected package \<open>name\<close>.\<close>

definition fillAndObserve :: "tp_state \<Rightarrow> bool \<Rightarrow> page \<Rightarrow> string \<Rightarrow> effect list" where
  "fillAndObserve st observing p name =
     (if fillForm (config st) p = []
      then [SendMessage ((packageResult False name)\<lparr>errorText := Some ''Failed to fill form''\<rparr>)]
      else fillForm (config st) p
           @ setupSuccessObserver observing name
           @ (if autoSubmit (config st) \<and> clickSetupButton p then [Click ''Set up connection'']
              else []))"

definition configureMode :: "tp_state \<Rightarrow> bool \<Rightarrow> page \<Rightarrow> string \<Rightarrow> effect list" where
  "configureMode st observing p name =
     (if isAlreadyConfigured (config st) p
      then
        let wasCompletedThisSession = (name \<in> set (completed st))
        in advance (if wasCompletedThisSession then st
                    else st\<lparr>skipped := push_if_absent (skipped st) name\<rparr>)
           @ [SendMessage ((packageResult True name)
                \<lparr>alreadyConfigured := \<not> wasCompletedThisSession,
                 completedFlag := wasCompletedThisSession\<rparr>)]
      else if ownerFieldAppears p
      then fillAndObserve st observing p name
      else (if clickGitHubActionsButton p then [Click ''GitHub Actions''] else [])
           @ (if ownerFieldAppearsAfterClick p
              then fillAndObserve st observing p name
              else [SendMessage ((packageResult False name)
                      \<lparr>errorText := Some ''Could not find form fields''\<rparr>)]))"

text \<open>\<^verbatim>\<open>handlePageLoad\<close> after the challenge check, for a running record \<open>st\<close>.\<close>

definition classifyPage :: "tp_state \<Rightarrow> bool \<Rightarrow> page \<Rightarrow> effect list" where
  "classifyPage st observing p =
     (if \<not> isAccessPage p then []
      else case getPackageName p of
        None \<Rightarrow> []
      | Some name \<Rightarrow>
          if name = [] then []
          else if currentPackage st \<noteq> Some name then []
          else if isNotFoundPage p
          then advance (st\<lparr>skipped := push_if_absent (skipped st) name\<rparr>)
               @ [SendMessage ((packageResult True name)\<lparr>notFound := True\<rparr>)]
          else if checkForSuccess p
          then advance (st\<lparr>completed := push_if_absent (completed st) name\<rparr>)
               @ [SendMessage ((packageResult True name)\<lparr>completedFlag := True\<rparr>)]
          else if mode (config st) = Some ''delete''
          then deleteMode st observing p name
          else configureMode st observing p name)"

text \<open>
  \<^verbatim>\<open>handlePageLoad\<close>, for the stored record, the observer flag, and the document as each
  successive pass finds it: a pass that finds a challenge reports it, waits, and runs
  the next pass. Without a further snapshot the agent is still waiting.
\<close>

fun handlePageLoad :: "tp_state option \<Rightarrow> bool \<Rightarrow> page list \<Rightarrow> effect list" where
  "handlePageLoad stored observing [] = []"
| "handlePageLoad stored observing (p # later) =
     (case stored of
        None \<Rightarrow> []
      | Some st \<Rightarrow>
          if status st \<noteq> Running then []
          else if hasTurnstileChallenge p
          then waitingReport st @ handlePageLoad stored observing later
          else classifyPage st observing p)"

section \<open>Coordinator (service worker)\<close>

text \<open>
  \<^verbatim>\<open>handle404Skip\<close>, behind the guard of the tab listener that calls it. The
  navigation is immediate. With the cursor past the end there is no name to record.
\<close>

definition handle404Skip :: "tp_state \<Rightarrow> effect list" where
  "handle404Skip st =
     (let st1 = (case currentPackage st of
                   None \<Rightarrow> st
                 | Some name \<Rightarrow> st\<lparr>skipped := push_if_absent (skipped st) name\<rparr>);
          st2 = st1\<lparr>currentIndex := currentIndex st1 + 1\<rparr>
      in if currentIndex st2 \<ge> length (packages st2)
         then [StorageSet (st2\<lparr>status := Idle\<rparr>)]
         else [StorageSet st2,
               NavigateAfter 0 (packageUrl (packages st2 ! currentIndex st2))])"

definition tabUpdated404 :: "tp_state option \<Rightarrow> effect list" where
  "tabUpdated404 stored =
     (case stored of
        None \<Rightarrow> []
      | Some st \<Rightarrow> if status st \<noteq> Running then [] else handle404Skip st)"

section \<open>Runs\<close>

text \<open>
  A run starts with the Controller's \<open>start\<close> and goes on by events, each handled as one
  step on the popup's world: the operator's buttons (a click on a disabled button does
  nothing) and edits of the form, an outcome report that reaches the popup, an advance
  timer, and the writes of the agent, the result observer and the coordinator, each of
  which reaches the popup through the storage listener. The agent, the observer and the
  coordinator read the stored record, wait, and write later: \<open>PageLoad\<close>, \<open>ObserverSees\<close>
  and \<open>Tab404\<close> are the passes whose read and write have nothing in between, and the
  \<open>Late\<close> events are the passes that write from the record they read earlier, given with
  the event. Their reports are events of their own (a report is lost when the popup is
  closed).
\<close>

datatype event =
    Pause
  | Resume
  | Next
  | PackageResult message
  | TimerFires
  | PageLoad "page list"
  | ObserverSees page string
  | Tab404
  | PackagesEdited string
  | ConfigEdited form_inputs
  | LatePageLoad tp_state "page list"
  | LateObserver tp_state page string
  | LateTab404 tp_state

fun writesOf :: "effect list \<Rightarrow> tp_state list" where
  "writesOf [] = []"
| "writesOf (StorageSet st # es) = st # writesOf es"
| "writesOf (e # es) = writesOf es"

definition storageWritten :: "tp_state \<Rightarrow> popup \<Rightarrow> popup" where
  "storageWritten st w = storageChanged st (w\<lparr>storage := Some st\<rparr>)"

definition storageWrites :: "effect list \<Rightarrow> popup \<Rightarrow> popup" where
  "storageWrites es w = foldl (\<lambda>w' st. storageWritten st w') w (writesOf es)"

fun step :: "event \<Rightarrow> popup \<Rightarrow> popup" where
  "step Pause w = (if pauseBtn_disabled w then w else handlePause w)"
| "step Resume w = (if resumeBtn_disabled w then w else handleResume w)"
| "step Next w = (if nextBtn_disabled w then w else handleNext w)"
| "step (PackageResult m) w = handlePackageResult m w"
| "step TimerFires w = timerFired w"
| "step (PageLoad ps) w = storageWrites (handlePageLoad (storage w) False ps) w"
| "step (ObserverSees p name) w = storageWrites (observerMutation p name (storage w)) w"
| "step Tab404 w = storageWrites (tabUpdated404 (storage w)) w"
| "step (PackagesEdited text) w =
     packagesChanged (w\<lparr>elements := (elements w)\<lparr>el_packages := text\<rparr>\<rparr>)"
| "step (ConfigEdited e) w =
     saveConfig (w\<lparr>elements := e\<lparr>el_packages := el_packages (elements w)\<rparr>\<rparr>)"
| "step (LatePageLoad copy ps) w = storageWrites (handlePageLoad (Some copy) False ps) w"
| "step (LateObserver copy p name) w = storageWrites (observerMutation p name (Some copy)) w"
| "step (LateTab404 copy) w = storageWrites (tabUpdated404 (Some copy)) w"

fun run :: "event list \<Rightarrow> popup \<Rightarrow> popup" where
  "run [] w = w"
| "run (e # es) w = run es (step e w)"

section \<open>Operations on the record\<close>

text \<open>
  The operations of a run that write the record, by who performs them. The popup's
  handlers work on its in-memory state; the agent's pass, the observer's callback and the
  coordinator's skip work on the record they have read. (\<open>start\<close> and \<open>reset\<close>, which
  clear the buckets and set the cursor to 0, begin and end a run.)
\<close>

datatype popup_op =
    OpPause
  | OpResume
  | OpNext
  | OpReport message
  | OpTimer
  | OpPackagesChanged
  | OpSaveConfig

fun popupOp :: "popup_op \<Rightarrow> popup \<Rightarrow> popup" where
  "popupOp OpPause w = handlePause w"
| "popupOp OpResume w = handleResume w"
| "popupOp OpNext w = handleNext w"
| "popupOp (OpReport m) w = handlePackageResult m w"
| "popupOp OpTimer w = timerFired w"
| "popupOp OpPackagesChanged w = packagesChanged w"
| "popupOp OpSaveConfig w = saveConfig w"

datatype writer_op =
    AgentPass bool "page list"
  | ObserverPass page string
  | CoordinatorSkip

fun writerOp :: "writer_op \<Rightarrow> tp_state \<Rightarrow> effect list" where
  "writerOp (AgentPass observing ps) st = handlePageLoad (Some st) observing ps"
| "writerOp (ObserverPass p name) st = observerMutation p name (Some st)"
| "writerOp CoordinatorSkip st = tabUpdated404 (Some st)"

text \<open>
  A name is in a bucket; and what a write of the agent, the observer or the coordinator
  is, next to the record \<open>st\<close> that was read: the same package list, no name taken out of
  the buckets, and the cursor either as read, or moved by one with the package that was
  at the cursor in \<open>skipped\<close> or \<open>completed\<close>.
\<close>

definition inBucket :: "tp_state \<Rightarrow> string \<Rightarrow> bool" where
  "inBucket s p = (p \<in> set (completed s) \<or> p \<in> set (failed s) \<or> p \<in> set (skipped s))"

definition laterRecord :: "tp_state \<Rightarrow> tp_state \<Rightarrow> bool" where
  "laterRecord st st' =
     (packages st' = packages st
      \<and> (\<forall>q. inBucket st q \<longrightarrow> inBucket st' q)
      \<and> (currentIndex st' = currentIndex st
         \<or> (currentIndex st' = currentIndex st + 1
            \<and> (\<forall>p. currentPackage st = Some p
                   \<longrightarrow> p \<in> set (skipped st') \<or> p \<in> set (completed st')))))"

section \<open>Concrete worlds\<close>

text \<open>
  The popup as it is when first opened (the defaults of the source), for given form
  inputs; some forms; and some pages of the package \<^verbatim>\<open>a\<close>.
\<close>

definition default_config :: tp_config where
  "default_config =
     \<lparr>owner = ''dxos'', repository = ''dxos'', workflow = ''publish-all.yml'', environment = [],
      navigationMode = ''manual'', autoSubmit = False, delay = 2, mode = None\<rparr>"

definition default_state :: tp_state where
  "default_state =
     \<lparr>status = Idle, packages = [], currentIndex = 0, completed = [], failed = [], skipped = [],
      config = default_config\<rparr>"

definition fresh_popup :: "form_inputs \<Rightarrow> popup" where
  "fresh_popup e =
     \<lparr>state = default_state, storage = Some default_state, elements = e, tabUrl = None,
      statusMessage = ([], []), timers = []\<rparr>"

definition form_manual :: "string \<Rightarrow> form_inputs" where
  "form_manual pkgs =
     \<lparr>el_owner = ''acme'', el_repository = ''tools'', el_workflow = ''release.yml'',
      el_environment = [], el_navigationMode = ''manual'', el_autoSubmit = ''false'',
      el_delay = ''2'', el_packages = pkgs\<rparr>"

definition form_auto :: "string \<Rightarrow> form_inputs" where
  "form_auto pkgs = (form_manual pkgs)\<lparr>el_navigationMode := ''auto''\<rparr>"

definition two_packages :: string where
  "two_packages = ''a'' @ [CHR 0x0A] @ ''b''"

definition blank_page :: page where
  "blank_page =
     \<lparr>title = [], bodyText = [], pathname = [], urlPackageName = None, hasH1 = False,
      hasPackageClass = False, hasAccessLink = False, buttons = [], hasMainWrapper = False,
      hasTurnstileIframe = False, hasTurnstileWidget = False, hasOtpInput = False,
      alertTexts = [], notificationText = None, formFieldIds = [], ownerFieldAppears = False,
      ownerFieldAppearsAfterClick = False\<rparr>"

definition access_page_a :: page where
  "access_page_a =
     blank_page\<lparr>title := ''a - npm'', pathname := ''/package/a/access'',
                urlPackageName := Some ''a'', hasH1 := True\<rparr>"

definition not_found_page_a :: page where
  "not_found_page_a = access_page_a\<lparr>title := ''404 - npm''\<rparr>"

definition challenge_page :: page where
  "challenge_page = blank_page\<lparr>title := ''Just a moment...''\<rparr>"

definition running_a_b :: tp_state where
  "running_a_b =
     \<lparr>status = Running, packages = [''a'', ''b''], currentIndex = 0, completed = [], failed = [],
      skipped = [], config = default_config\<rparr>"

definition not_found_report_a :: message where
  "not_found_report_a = (packageResult True ''a'')\<lparr>notFound := True\<rparr>"

definition waiting_report_a :: message where
  "waiting_report_a =
     (packageResult False ''a'')
       \<lparr>errorText := Some ''Waiting for Cloudflare challenge...'', waiting := True\<rparr>"


definition success_report_a :: message where
  "success_report_a = (packageResult True ''a'')\<lparr>completedFlag := True\<rparr>"

text \<open>
  A run in which a not-found report for \<^verbatim>\<open>a\<close> reaches the popup while the run is
  paused: the agent had read the record before the operator paused.
\<close>

definition paused_report_run :: popup where
  "paused_report_run =
     run [Pause, PackageResult not_found_report_a, Resume]
       (handleStart (fresh_popup (form_manual two_packages)))"

definition started_a_b :: popup where
  "started_a_b = handleStart (fresh_popup (form_manual two_packages))"

definition success_page_a :: page where
  "success_page_a = access_page_a\<lparr>alertTexts := [''Successfully set up trusted publisher'']\<rparr>"

text \<open>
  A run in which the result observer has recorded \<^verbatim>\<open>a\<close> as completed (manual mode: the
  cursor stays on \<^verbatim>\<open>a\<close>).
\<close>

definition observed_success_run :: popup where
  "observed_success_run = run [ObserverSees success_page_a ''a''] started_a_b"




text \<open>
  A run in auto mode in which the observer reads the record, the popup handles the
  observer's report and moves the cursor, and then the observer's write lands.
\<close>

definition auto_started :: popup where
  "auto_started = handleStart (fresh_popup (form_auto two_packages))"

definition report_handled :: popup where
  "report_handled = run [PackageResult success_report_a] auto_started"

definition late_write_landed :: popup where
  "late_write_landed =
     run [LateObserver (state auto_started) success_page_a ''a''] report_handled"

text \<open>
  A run of two packages, moved to \<^verbatim>\<open>b\<close> by \<open>next\<close> and paused, in which the package field
  is then cut down to \<^verbatim>\<open>a\<close>.
\<close>

definition paused_and_cut :: popup where
  "paused_and_cut = run [Next, Pause, PackagesEdited ''a''] started_a_b"

text \<open>Concrete runs of the publisher: a single package with no passcode, and partial failures.\<close>

definition env_no_passcode :: publisher_env where
  "env_no_passcode =
     \<lparr>arg1 = None, packages_file = Some [''@dxos/a''], op_available = True,
      otp = (\<lambda>i. []), pnpm_publish = (\<lambda>i pkg t. True)\<rparr>"

definition env_partial_failure :: publisher_env where
  "env_partial_failure =
     \<lparr>arg1 = None, packages_file = Some [''@dxos/a'', ''@dxos/b''], op_available = True,
      otp = (\<lambda>i. ''123456''), pnpm_publish = (\<lambda>i pkg t. pkg = ''@dxos/a'')\<rparr>"

definition env_two_failures :: publisher_env where
  "env_two_failures =
     \<lparr>arg1 = None, packages_file = Some [''@dxos/a'', ''@dxos/b'', ''@dxos/c''],
      op_available = True, otp = (\<lambda>i. ''123456''),
      pnpm_publish = (\<lambda>i pkg t. pkg = ''@dxos/a'')\<rparr>"

definition registry_only_a :: "string \<Rightarrow> fetch_result" where
  "registry_only_a pkg = (if pkg = ''@dxos/a'' then Response 200 else Response 404)"

subsection \<open>Properties of the checker\<close>

lemma collect_published:
  "published (collect r ps) = published r @ map fst (filter snd ps)"
  by (induction r ps rule: collect.induct) auto

lemma collect_unpublished:
  "unpublished (collect r ps) = unpublished r @ map fst (filter (\<lambda>p. \<not> snd p) ps)"
  by (induction r ps rule: collect.induct) auto

lemma filter_take_drop_step:
  "filter P (take n (drop i xs)) @ filter P (drop (i + n) xs) = filter P (drop i xs)"
proof -
  have "take n (drop i xs) @ drop (i + n) xs = drop i xs"
    by (metis append_take_drop_id drop_drop add.commute)
  then show ?thesis
    by (metis filter_append)
qed

lemma batch_loop_published:
  "published (batch_loop fetch pkgs i r) =
     published r @ filter (checkPackageExists fetch) (drop i pkgs)"
proof (induction fetch pkgs i r rule: batch_loop.induct)
  case (1 fetch pkgs i r)
  show ?case
  proof (cases "i < length pkgs")
    case True
    have "published (batch_loop fetch pkgs i r) =
            published (batch_loop fetch pkgs (i + CONCURRENCY)
              (collect r (map (\<lambda>pkg. (pkg, checkPackageExists fetch pkg))
                              (slice pkgs i (i + CONCURRENCY)))))"
      using True by simp
    also have "\<dots> = published r
        @ filter (checkPackageExists fetch) (take CONCURRENCY (drop i pkgs))
        @ filter (checkPackageExists fetch) (drop (i + CONCURRENCY) pkgs)"
      using "1.IH" [OF True]
      by (simp add: collect_published slice_def filter_map comp_def)
    finally show ?thesis
      by (simp add: filter_take_drop_step)
  next
    case False
    then show ?thesis by simp
  qed
qed

lemma batch_loop_unpublished:
  "unpublished (batch_loop fetch pkgs i r) =
     unpublished r @ filter (\<lambda>p. \<not> checkPackageExists fetch p) (drop i pkgs)"
proof (induction fetch pkgs i r rule: batch_loop.induct)
  case (1 fetch pkgs i r)
  show ?case
  proof (cases "i < length pkgs")
    case True
    have "unpublished (batch_loop fetch pkgs i r) =
            unpublished (batch_loop fetch pkgs (i + CONCURRENCY)
              (collect r (map (\<lambda>pkg. (pkg, checkPackageExists fetch pkg))
                              (slice pkgs i (i + CONCURRENCY)))))"
      using True by simp
    also have "\<dots> = unpublished r
        @ filter (\<lambda>p. \<not> checkPackageExists fetch p) (take CONCURRENCY (drop i pkgs))
        @ filter (\<lambda>p. \<not> checkPackageExists fetch p) (drop (i + CONCURRENCY) pkgs)"
      using "1.IH" [OF True]
      by (simp add: collect_unpublished slice_def filter_map comp_def)
    finally show ?thesis
      by (simp add: filter_take_drop_step)
  next
    case False
    then show ?thesis by simp
  qed
qed

lemma checkPackageExists_iff:
  "checkPackageExists fetch = (\<lambda>p. fetch p = Response 200)"
  by (rule ext) (simp add: checkPackageExists_def split: fetch_result.splits)

text \<open>
  C10. A probed package is published exactly when the registry answers with status 200;
  every other status and a network error make it unpublished. The two lists are the two
  halves of the list of packages, in order, so each probed name is in exactly one of them.
\<close>

theorem checker_classifies_by_status_200:
  "published (check_all fetch pkgs) = filter (\<lambda>p. fetch p = Response 200) pkgs
   \<and> unpublished (check_all fetch pkgs) = filter (\<lambda>p. fetch p \<noteq> Response 200) pkgs
   \<and> set (published (check_all fetch pkgs)) \<inter> set (unpublished (check_all fetch pkgs)) = {}
   \<and> set (published (check_all fetch pkgs)) \<union> set (unpublished (check_all fetch pkgs))
       = set pkgs"
proof -
  have p: "published (check_all fetch pkgs) = filter (\<lambda>p. fetch p = Response 200) pkgs"
    by (simp add: check_all_def batch_loop_published checkPackageExists_iff del: batch_loop.simps)
  have u: "unpublished (check_all fetch pkgs) = filter (\<lambda>p. fetch p \<noteq> Response 200) pkgs"
    by (simp add: check_all_def batch_loop_unpublished checkPackageExists_iff del: batch_loop.simps)
  show ?thesis
    unfolding p u by auto
qed

text \<open>
  The specification's scenario: of two packages only the first exists on the registry.
\<close>

theorem checker_classifies_by_status_200_witness:
  "published (check_all registry_only_a [''@dxos/a'', ''@dxos/b'']) = [''@dxos/a'']
   \<and> unpublished (check_all registry_only_a [''@dxos/a'', ''@dxos/b'']) = [''@dxos/b'']
   \<and> unpublished_file (check_all registry_only_a [''@dxos/a'', ''@dxos/b''])
        = Some (''@dxos/b'' @ [CHR 0x0A])"
  using checker_classifies_by_status_200 [of registry_only_a "[''@dxos/a'', ''@dxos/b'']"]
  by (simp add: registry_only_a_def unpublished_file_def)

subsection \<open>Properties of the publisher\<close>

lemma out_echo [simp]: "out (echo ls st) = out st @ map Echo ls"
  and SUCCEEDED_echo [simp]: "SUCCEEDED (echo ls st) = SUCCEEDED st"
  and FAILED_echo [simp]: "FAILED (echo ls st) = FAILED st"
  by (simp_all add: echo_def)

lemma out_emit [simp]: "out (emit es st) = out st @ es"
  and SUCCEEDED_emit [simp]: "SUCCEEDED (emit es st) = SUCCEEDED st"
  and FAILED_emit [simp]: "FAILED (emit es st) = FAILED st"
  by (simp_all add: emit_def)

lemma no_write_Echo [simp]: "filter is_WriteFile (map Echo ls) = []"
  by (induction ls) (simp_all add: is_WriteFile_def)

lemma no_publish_Echo [simp]: "filter is_PnpmPublish (map Echo ls) = []"
  by (induction ls) (simp_all add: is_PnpmPublish_def)

lemma no_write_header [simp]: "filter is_WriteFile (header TOTAL i' line) = []"
  and no_publish_header [simp]: "filter is_PnpmPublish (header TOTAL i' line) = []"
  by (simp_all add: header_def is_WriteFile_def is_PnpmPublish_def)

lemma initial_state_simps [simp]:
  "filter is_WriteFile (out (initial_state TOTAL)) = []"
  "filter is_PnpmPublish (out (initial_state TOTAL)) = []"
  "SUCCEEDED (initial_state TOTAL) = []"
  "FAILED (initial_state TOTAL) = []"
  by (simp_all add: initial_state_def is_WriteFile_def is_PnpmPublish_def)

lemma publish_one_empty_otp:
  "otp env i' = [] \<Longrightarrow>
   publish_one env TOTAL i' line st =
     Inl (st\<lparr>out := out st @ header TOTAL i' line
                  @ [Echo ''Error: Could not get OTP from 1Password'']\<rparr>)"
  by (simp add: publish_one_def Let_def echo_def emit_def)

lemma publish_one_with_otp:
  assumes "otp env i' \<noteq> []"
  shows "\<exists>st'. publish_one env TOTAL i' line st = Inr st'
     \<and> length (filter is_PnpmPublish (out st')) = Suc (length (filter is_PnpmPublish (out st)))
     \<and> filter is_WriteFile (out st') = filter is_WriteFile (out st)
     \<and> SUCCEEDED st' = SUCCEEDED st
          @ (if pnpm_publish env i' (read_r line) (otp env i') then [read_r line] else [])
     \<and> FAILED st' = FAILED st
          @ (if pnpm_publish env i' (read_r line) (otp env i') then [] else [read_r line])"
  using assms
  by (simp add: publish_one_def Let_def is_PnpmPublish_def is_WriteFile_def)

lemma publish_loop_append:
  "publish_loop env TOTAL i (xs @ ys) st =
     (case publish_loop env TOTAL i xs st of
        Inl st' \<Rightarrow> Inl st'
      | Inr st' \<Rightarrow> publish_loop env TOTAL (i + length xs) ys st')"
  by (induction xs arbitrary: i st) (auto split: sum.splits)

lemma publish_loop_completes:
  assumes "\<forall>j<length xs. otp env (i + j + 1) \<noteq> []"
  shows "\<exists>st'. publish_loop env TOTAL i xs st = Inr st'
     \<and> length (filter is_PnpmPublish (out st')) = length (filter is_PnpmPublish (out st)) + length xs
     \<and> filter is_WriteFile (out st') = filter is_WriteFile (out st)
     \<and> SUCCEEDED st' = SUCCEEDED st
          @ map (read_r \<circ> snd)
              (filter (\<lambda>(k, l). pnpm_publish env k (read_r l) (otp env k)) (enumerate (i + 1) xs))
     \<and> FAILED st' = FAILED st
          @ map (read_r \<circ> snd)
              (filter (\<lambda>(k, l). \<not> pnpm_publish env k (read_r l) (otp env k)) (enumerate (i + 1) xs))"
  using assms
proof (induction xs arbitrary: i st)
  case Nil
  then show ?case by simp
next
  case (Cons x xs)
  from Cons.prems have o1: "otp env (i + 1) \<noteq> []"
    by (metis add.right_neutral length_greater_0_conv list.distinct(1))
  from publish_one_with_otp [OF o1, of TOTAL x st]
  obtain st1 where st1: "publish_one env TOTAL (i + 1) x st = Inr st1"
     "length (filter is_PnpmPublish (out st1)) = Suc (length (filter is_PnpmPublish (out st)))"
     "filter is_WriteFile (out st1) = filter is_WriteFile (out st)"
     "SUCCEEDED st1 = SUCCEEDED st
          @ (if pnpm_publish env (i + 1) (read_r x) (otp env (i + 1)) then [read_r x] else [])"
     "FAILED st1 = FAILED st
          @ (if pnpm_publish env (i + 1) (read_r x) (otp env (i + 1)) then [] else [read_r x])"
    by blast
  have rest: "\<forall>j<length xs. otp env ((i + 1) + j + 1) \<noteq> []"
  proof (intro allI impI)
    fix j assume "j < length xs"
    then have "Suc j < length (x # xs)" by simp
    with Cons.prems have "otp env (i + Suc j + 1) \<noteq> []" by blast
    then show "otp env ((i + 1) + j + 1) \<noteq> []" by simp
  qed
  from Cons.IH [OF rest, of st1]
  obtain st' where st': "publish_loop env TOTAL (i + 1) xs st1 = Inr st'"
     "length (filter is_PnpmPublish (out st')) = length (filter is_PnpmPublish (out st1)) + length xs"
     "filter is_WriteFile (out st') = filter is_WriteFile (out st1)"
     "SUCCEEDED st' = SUCCEEDED st1
          @ map (read_r \<circ> snd)
              (filter (\<lambda>(k, l). pnpm_publish env k (read_r l) (otp env k)) (enumerate (i + 1 + 1) xs))"
     "FAILED st' = FAILED st1
          @ map (read_r \<circ> snd)
              (filter (\<lambda>(k, l). \<not> pnpm_publish env k (read_r l) (otp env k)) (enumerate (i + 1 + 1) xs))"
    by blast
  show ?case
    using st1 st' by simp
qed

lemma not_write_Echo [simp]: "\<not> is_WriteFile (Echo s)"
  by (simp add: is_WriteFile_def)

lemma summary_simps [simp]:
  "SUCCEEDED (summary st) = SUCCEEDED st"
  "FAILED (summary st) = FAILED st"
  "filter is_WriteFile (out (summary st)) = filter is_WriteFile (out st)"
  by (simp_all add: summary_def Let_def)

lemma summary_ends_with_retry:
  "FAILED st \<noteq> [] \<Longrightarrow>
   \<exists>before. out (summary st) = before @ map Echo (retry_lines (FAILED st)) @ [Echo bar]"
  by (simp add: summary_def Let_def)

text \<open>
  C9. If the secrets CLI prints an empty passcode for a package, the script exits with
  status 1 at once: the state at the exit is the state after the earlier packages, followed
  only by the header of this package, the call of the secrets CLI and the fatal message. No
  publish command is run for this package (the publish commands are those of the earlier
  packages), and neither list gets an entry for it.
\<close>

theorem publisher_aborts_on_empty_otp:
  assumes pfile: "packages_file env = Some (pre @ line # post)"
      and op: "op_available env"
      and pre_ok: "\<forall>j<length pre. otp env (j + 1) \<noteq> []"
      and empty: "otp env (length pre + 1) = []"
  shows "\<exists>st_pre.
           publish_loop env (length (pre @ line # post)) 0 pre
               (initial_state (length (pre @ line # post))) = Inr st_pre
         \<and> publisher env =
             (1, st_pre\<lparr>out := out st_pre
                            @ header (length (pre @ line # post)) (length pre + 1) line
                            @ [Echo ''Error: Could not get OTP from 1Password'']\<rparr>)
         \<and> length (filter is_PnpmPublish (out (snd (publisher env)))) = length pre
         \<and> length (SUCCEEDED (snd (publisher env))) + length (FAILED (snd (publisher env)))
             = length pre"
proof -
  let ?T = "length (pre @ line # post)"
  from pre_ok have "\<forall>j<length pre. otp env (0 + j + 1) \<noteq> []" by simp
  from publish_loop_completes [OF this, of ?T "initial_state ?T"]
  obtain st_pre where sp:
    "publish_loop env ?T 0 pre (initial_state ?T) = Inr st_pre"
    "length (filter is_PnpmPublish (out st_pre)) = length pre"
    "SUCCEEDED st_pre = map (read_r \<circ> snd)
        (filter (\<lambda>(k, l). pnpm_publish env k (read_r l) (otp env k)) (enumerate (0 + 1) pre))"
    "FAILED st_pre = map (read_r \<circ> snd)
        (filter (\<lambda>(k, l). \<not> pnpm_publish env k (read_r l) (otp env k)) (enumerate (0 + 1) pre))"
    by auto
  have loop: "publish_loop env ?T 0 (pre @ line # post) (initial_state ?T) =
      Inl (st_pre\<lparr>out := out st_pre @ header ?T (length pre + 1) line
                     @ [Echo ''Error: Could not get OTP from 1Password'']\<rparr>)"
    using sp(1) empty by (simp add: publish_loop_append publish_one_empty_otp)
  have pub: "publisher env =
      (1, st_pre\<lparr>out := out st_pre @ header ?T (length pre + 1) line
                     @ [Echo ''Error: Could not get OTP from 1Password'']\<rparr>)"
    using pfile op loop by (simp add: publisher_def Let_def)
  have len: "length (SUCCEEDED st_pre) + length (FAILED st_pre) = length pre"
    unfolding sp(3) sp(4) length_map split_def
    using sum_length_filter_compl
      [of "\<lambda>x. pnpm_publish env (fst x) (read_r (snd x)) (otp env (fst x))" "enumerate (0 + 1) pre"]
    by simp
  show ?thesis
    using sp(1) sp(2) pub len by (simp add: is_PnpmPublish_def)
qed

text \<open>
  The run of the specification's scenario: one entry, empty passcode.
\<close>

theorem publisher_aborts_on_empty_otp_witness:
  "packages_file env_no_passcode = Some ([] @ ''@dxos/a'' # [])
   \<and> op_available env_no_passcode
   \<and> otp env_no_passcode (length ([] :: string list) + 1) = []
   \<and> fst (publisher env_no_passcode) = 1
   \<and> filter is_PnpmPublish (out (snd (publisher env_no_passcode))) = []
   \<and> SUCCEEDED (snd (publisher env_no_passcode)) = []
   \<and> FAILED (snd (publisher env_no_passcode)) = []"
proof -
  have h1: "packages_file env_no_passcode = Some ([] @ ''@dxos/a'' # [])"
    by (simp add: env_no_passcode_def)
  have h2: "op_available env_no_passcode"
    by (simp add: env_no_passcode_def)
  have h3: "\<forall>j<length ([] :: string list). otp env_no_passcode (j + 1) \<noteq> []"
    by simp
  have h4: "otp env_no_passcode (length ([] :: string list) + 1) = []"
    by (simp add: env_no_passcode_def)
  from publisher_aborts_on_empty_otp [OF h1 h2 h3 h4]
  obtain st_pre where
    "publish_loop env_no_passcode 1 0 [] (initial_state 1) = Inr st_pre"
    "publisher env_no_passcode =
       (1, st_pre\<lparr>out := out st_pre @ header 1 1 ''@dxos/a''
                      @ [Echo ''Error: Could not get OTP from 1Password'']\<rparr>)"
    by auto
  then have "publisher env_no_passcode =
       (1, (initial_state 1)\<lparr>out := out (initial_state 1) @ header 1 1 ''@dxos/a''
                      @ [Echo ''Error: Could not get OTP from 1Password'']\<rparr>)"
    by auto
  then show ?thesis
    using h1 h2 h4 by (simp add: is_PnpmPublish_def)
qed

text \<open>
  C4, as amended. In a run that reaches the summary (the list file and the secrets CLI are
  there, every passcode is non-empty) the script exits with status 0, the \<open>FAILED\<close> list
  holds exactly the packages whose publish command failed, in order, and when it is not
  empty the output ends with these lines: an empty line, \<^verbatim>\<open>Failed packages:\<close>, one line
  per failed name, an empty line, \<^verbatim>\<open>To retry failed packages, run:\<close>, the \<^verbatim>\<open>printf\<close>
  command that would create \<^verbatim>\<open>failed-packages.txt\<close> from the failed names, the publisher
  called on that file, and the closing bar. The script itself writes no file.
\<close>

theorem publisher_prints_retry_command:
  assumes pfile: "packages_file env = Some lines"
      and op: "op_available env"
      and otps: "\<forall>j<length lines. otp env (j + 1) \<noteq> []"
  shows "fst (publisher env) = 0
       \<and> FAILED (snd (publisher env)) =
           map (read_r \<circ> snd)
             (filter (\<lambda>(k, l). \<not> pnpm_publish env k (read_r l) (otp env k)) (enumerate 1 lines))
       \<and> filter is_WriteFile (out (snd (publisher env))) = []
       \<and> (FAILED (snd (publisher env)) \<noteq> [] \<longrightarrow>
            (\<exists>before. out (snd (publisher env)) =
               before
               @ [Echo [], Echo ''Failed packages:'']
               @ map (\<lambda>pkg. Echo (''  - '' @ pkg)) (FAILED (snd (publisher env)))
               @ [Echo [],
                  Echo ''To retry failed packages, run:'',
                  Echo (''  printf '' @ [CHR 0x27] @ ''%s'' @ [CHR 0x5C] @ ''n'' @ [CHR 0x27]
                        @ '' '' @ join_blank (FAILED (snd (publisher env)))
                        @ '' > failed-packages.txt''),
                  Echo ''  ./tools/npm-trusted-publisher/publish-unpublished.sh failed-packages.txt'',
                  Echo ''=========================================='']))"
proof -
  let ?T = "length lines"
  from otps have "\<forall>j<length lines. otp env (0 + j + 1) \<noteq> []" by simp
  from publish_loop_completes [OF this, of ?T "initial_state ?T"]
  obtain st' where sp:
    "publish_loop env ?T 0 lines (initial_state ?T) = Inr st'"
    "filter is_WriteFile (out st') = []"
    "FAILED st' = map (read_r \<circ> snd)
        (filter (\<lambda>(k, l). \<not> pnpm_publish env k (read_r l) (otp env k)) (enumerate (0 + 1) lines))"
    by auto
  have pub: "publisher env = (0, summary st')"
    using pfile op sp(1) by (simp add: publisher_def Let_def)
  have tail: "FAILED st' \<noteq> [] \<Longrightarrow>
      \<exists>before. out (summary st') =
         before
         @ [Echo [], Echo ''Failed packages:'']
         @ map (\<lambda>pkg. Echo (''  - '' @ pkg)) (FAILED st')
         @ [Echo [],
            Echo ''To retry failed packages, run:'',
            Echo (''  printf '' @ [CHR 0x27] @ ''%s'' @ [CHR 0x5C] @ ''n'' @ [CHR 0x27]
                  @ '' '' @ join_blank (FAILED st') @ '' > failed-packages.txt''),
            Echo ''  ./tools/npm-trusted-publisher/publish-unpublished.sh failed-packages.txt'',
            Echo ''=========================================='']"
    using summary_ends_with_retry [of st']
    by (simp add: retry_lines_def bar_def comp_def)
  show ?thesis
    unfolding pub using sp(2) sp(3) tail by simp
qed

text \<open>
  A run with three packages, the second and third of which fail to publish: the whole
  output.
\<close>

theorem publisher_prints_retry_command_witness:
  "packages_file env_two_failures = Some [''@dxos/a'', ''@dxos/b'', ''@dxos/c'']
   \<and> op_available env_two_failures
   \<and> fst (publisher env_two_failures) = 0
   \<and> FAILED (snd (publisher env_two_failures)) = [''@dxos/b'', ''@dxos/c'']
   \<and> out (snd (publisher env_two_failures)) =
       [Echo ''Publishing 3 packages...'', Echo [],
        Echo ''=========================================='',
        Echo ''[1/3] Publishing @dxos/a'',
        Echo ''=========================================='',
        OpItemGet,
        PnpmPublish ''@dxos/a'' ''123456'',
        Echo ([CHR 0xE2, CHR 0x9C, CHR 0x93] @ '' Successfully published @dxos/a''),
        Echo ''Waiting 5s before next publish...'', Sleep 5, Echo [],
        Echo ''=========================================='',
        Echo ''[2/3] Publishing @dxos/b'',
        Echo ''=========================================='',
        OpItemGet,
        PnpmPublish ''@dxos/b'' ''123456'',
        Echo ([CHR 0xE2, CHR 0x9C, CHR 0x97] @ '' Failed to publish @dxos/b''),
        Echo ''Waiting 5s before next publish...'', Sleep 5, Echo [],
        Echo ''=========================================='',
        Echo ''[3/3] Publishing @dxos/c'',
        Echo ''=========================================='',
        OpItemGet,
        PnpmPublish ''@dxos/c'' ''123456'',
        Echo ([CHR 0xE2, CHR 0x9C, CHR 0x97] @ '' Failed to publish @dxos/c''),
        Echo [],
        Echo ''=========================================='',
        Echo ''SUMMARY'',
        Echo ''=========================================='',
        Echo ''Succeeded: 1'',
        Echo ''Failed: 2'',
        Echo [],
        Echo ''Failed packages:'',
        Echo ''  - @dxos/b'',
        Echo ''  - @dxos/c'',
        Echo [],
        Echo ''To retry failed packages, run:'',
        Echo (''  printf '' @ [CHR 0x27] @ ''%s'' @ [CHR 0x5C] @ ''n'' @ [CHR 0x27]
              @ '' @dxos/b @dxos/c > failed-packages.txt''),
        Echo ''  ./tools/npm-trusted-publisher/publish-unpublished.sh failed-packages.txt'',
        Echo ''=========================================='']"
proof -
  have h1: "packages_file env_two_failures = Some [''@dxos/a'', ''@dxos/b'', ''@dxos/c'']"
    by (simp add: env_two_failures_def)
  have h2: "op_available env_two_failures"
    by (simp add: env_two_failures_def)
  have h3: "\<forall>j<length [''@dxos/a'', ''@dxos/b'', ''@dxos/c'']. otp env_two_failures (j + 1) \<noteq> []"
    by (simp add: env_two_failures_def)
  have f: "FAILED (snd (publisher env_two_failures)) = [''@dxos/b'', ''@dxos/c'']"
    by code_simp
  have whole: "out (snd (publisher env_two_failures)) =
       [Echo ''Publishing 3 packages...'', Echo [],
        Echo ''=========================================='',
        Echo ''[1/3] Publishing @dxos/a'',
        Echo ''=========================================='',
        OpItemGet,
        PnpmPublish ''@dxos/a'' ''123456'',
        Echo ([CHR 0xE2, CHR 0x9C, CHR 0x93] @ '' Successfully published @dxos/a''),
        Echo ''Waiting 5s before next publish...'', Sleep 5, Echo [],
        Echo ''=========================================='',
        Echo ''[2/3] Publishing @dxos/b'',
        Echo ''=========================================='',
        OpItemGet,
        PnpmPublish ''@dxos/b'' ''123456'',
        Echo ([CHR 0xE2, CHR 0x9C, CHR 0x97] @ '' Failed to publish @dxos/b''),
        Echo ''Waiting 5s before next publish...'', Sleep 5, Echo [],
        Echo ''=========================================='',
        Echo ''[3/3] Publishing @dxos/c'',
        Echo ''=========================================='',
        OpItemGet,
        PnpmPublish ''@dxos/c'' ''123456'',
        Echo ([CHR 0xE2, CHR 0x9C, CHR 0x97] @ '' Failed to publish @dxos/c''),
        Echo [],
        Echo ''=========================================='',
        Echo ''SUMMARY'',
        Echo ''=========================================='',
        Echo ''Succeeded: 1'',
        Echo ''Failed: 2'',
        Echo [],
        Echo ''Failed packages:'',
        Echo ''  - @dxos/b'',
        Echo ''  - @dxos/c'',
        Echo [],
        Echo ''To retry failed packages, run:'',
        Echo (''  printf '' @ [CHR 0x27] @ ''%s'' @ [CHR 0x5C] @ ''n'' @ [CHR 0x27]
              @ '' @dxos/b @dxos/c > failed-packages.txt''),
        Echo ''  ./tools/npm-trusted-publisher/publish-unpublished.sh failed-packages.txt'',
        Echo ''=========================================='']"
    by code_simp
  from publisher_prints_retry_command [OF h1 h2 h3]
  have "fst (publisher env_two_failures) = 0" by blast
  with h1 h2 f whole show ?thesis by blast
qed

text \<open>
  C4, as stated, fails: in a run of two packages whose second publish fails, no file is
  written. The line naming \<^verbatim>\<open>failed-packages.txt\<close> is an \<^verbatim>\<open>echo\<close> of a command for the
  operator.
\<close>

theorem publisher_writes_no_retry_file:
  "FAILED (snd (publisher env_partial_failure)) = [''@dxos/b'']
   \<and> filter is_WriteFile (out (snd (publisher env_partial_failure))) = []"
  by (simp add: publisher_def env_partial_failure_def initial_state_def publish_one_def
        header_def summary_def retry_lines_def Let_def read_r_def is_ifs_def
        is_WriteFile_def echo_def emit_def)

subsection \<open>Properties of the extension\<close>

lemma saveState_simps [simp]:
  "state (saveState w) = state w"
  "storage (saveState w) = Some (state w)"
  "elements (saveState w) = elements w"
  "tabUrl (saveState w) = tabUrl w"
  "statusMessage (saveState w) = statusMessage w"
  "timers (saveState w) = timers w"
  by (simp_all add: saveState_def)

lemma showStatus_simps [simp]:
  "state (showStatus t k w) = state w"
  "storage (showStatus t k w) = storage w"
  "elements (showStatus t k w) = elements w"
  "tabUrl (showStatus t k w) = tabUrl w"
  "statusMessage (showStatus t k w) = (t, k)"
  "timers (showStatus t k w) = timers w"
  by (simp_all add: showStatus_def)

lemma saveConfig_simps [simp]:
  "state (saveConfig w) = (state w)\<lparr>config := configFromForm (elements w)\<rparr>"
  "storage (saveConfig w) = Some ((state w)\<lparr>config := configFromForm (elements w)\<rparr>)"
  "elements (saveConfig w) = elements w"
  "tabUrl (saveConfig w) = tabUrl w"
  "statusMessage (saveConfig w) = statusMessage w"
  "timers (saveConfig w) = timers w"
  by (simp_all add: saveConfig_def)

text \<open>
  C3, as amended. When the parsed package list is empty, \<open>start\<close> is rejected with the
  message to enter a package: status, cursor and the three buckets are as before, no
  navigation and no timer is started. Before the check, however, the config has been
  replaced by the form's values and stored (together with the old package list), and
  the package list in memory has been replaced by the empty parsed list.
\<close>

theorem start_with_empty_list_is_rejected:
  assumes "parsePackages (el_packages (elements w)) = []"
  shows "statusMessage (handleStart w) = (''Please enter at least one package'', ''error'')
       \<and> status (state (handleStart w)) = status (state w)
       \<and> currentIndex (state (handleStart w)) = currentIndex (state w)
       \<and> completed (state (handleStart w)) = completed (state w)
       \<and> failed (state (handleStart w)) = failed (state w)
       \<and> skipped (state (handleStart w)) = skipped (state w)
       \<and> tabUrl (handleStart w) = tabUrl w
       \<and> timers (handleStart w) = timers w
       \<and> config (state (handleStart w)) = configFromForm (elements w)
       \<and> packages (state (handleStart w)) = []
       \<and> storage (handleStart w) = Some ((state w)\<lparr>config := configFromForm (elements w)\<rparr>)"
  using assms by (simp add: handleStart_def Let_def)

lemma parsePackages_empty [simp]: "parsePackages [] = []"
  by (simp add: parsePackages_def trim_def)

text \<open>The popup as first opened, with an empty package field.\<close>

theorem start_with_empty_list_is_rejected_witness:
  "parsePackages (el_packages (elements (fresh_popup (form_manual [])))) = []
   \<and> status (state (handleStart (fresh_popup (form_manual [])))) = Idle
   \<and> statusMessage (handleStart (fresh_popup (form_manual [])))
        = (''Please enter at least one package'', ''error'')
   \<and> tabUrl (handleStart (fresh_popup (form_manual []))) = None"
proof -
  have h: "parsePackages (el_packages (elements (fresh_popup (form_manual [])))) = []"
    by (simp add: fresh_popup_def form_manual_def)
  show ?thesis
    using h start_with_empty_list_is_rejected [OF h]
    by (simp add: fresh_popup_def default_state_def)
qed

text \<open>
  C3, as stated, fails: with an empty package field, \<open>start\<close> has changed the config
  (owner \<^verbatim>\<open>dxos\<close> became \<^verbatim>\<open>acme\<close>, the form's value) and has stored the changed record,
  before it is rejected.
\<close>

theorem start_with_empty_list_changes_config:
  "parsePackages (el_packages (elements (fresh_popup (form_manual [])))) = []
   \<and> owner (config (state (fresh_popup (form_manual [])))) = ''dxos''
   \<and> owner (config (state (handleStart (fresh_popup (form_manual []))))) = ''acme''
   \<and> storage (handleStart (fresh_popup (form_manual []))) \<noteq> storage (fresh_popup (form_manual []))"
  by (simp add: handleStart_def Let_def fresh_popup_def form_manual_def default_state_def
        default_config_def configFromForm_def trim_def isSpace_def)

text \<open>
  C6: \<open>next\<close> on a package that is already classified as skipped. The claim says it is
  not added to \<open>completed\<close>; \<open>handleNext\<close> tests \<open>completed\<close> and \<open>failed\<close> only, and adds it.
\<close>

theorem next_completes_a_skipped_package:
  "currentPackage (state paused_report_run) = Some ''a''
   \<and> status (state paused_report_run) = Running
   \<and> skipped (state paused_report_run) = [''a'']
   \<and> completed (state paused_report_run) = []
   \<and> completed (state (handleNext paused_report_run)) = [''a'']
   \<and> skipped (state (handleNext paused_report_run)) = [''a'']"
  by code_simp

text \<open>
  C2: the agent's report of a challenge, handled by the popup. The report carries
  \<^verbatim>\<open>success: false\<close> and \<^verbatim>\<open>waiting: true\<close>; the handler does not read \<^verbatim>\<open>waiting\<close>, and the
  package lands in \<open>failed\<close>.
\<close>

theorem waiting_report_lands_in_failed:
  "state started_a_b = running_a_b\<lparr>config := configFromForm (form_manual two_packages)\<rparr>
   \<and> handlePageLoad (storage started_a_b) False [challenge_page] = [SendMessage waiting_report_a]
   \<and> waiting waiting_report_a
   \<and> failed (state started_a_b) = []
   \<and> failed (state (handlePackageResult waiting_report_a started_a_b)) = [''a'']"
  by code_simp

lemma in_push_if_absent [simp]: "q \<in> set (push_if_absent xs x) \<longleftrightarrow> q = x \<or> q \<in> set xs"
  by (auto simp: push_if_absent_def)

lemma in_without [simp]: "q \<in> set (without xs x) \<longleftrightarrow> q \<noteq> x \<and> q \<in> set xs"
  by (auto simp: without_def)

lemma handlePackageResult_buckets:
  "success m \<Longrightarrow>
     completed (state (handlePackageResult m w)) = completed (fst (recordOutcome m (state w)))
   \<and> skipped (state (handlePackageResult m w)) = skipped (fst (recordOutcome m (state w)))
   \<and> failed (state (handlePackageResult m w)) = failed (fst (recordOutcome m (state w)))"
  by (simp add: handlePackageResult_def Let_def)

text \<open>
  C1, as amended. When the Controller's handler records an already-configured outcome
  (\<^verbatim>\<open>alreadyConfigured\<close> without \<^verbatim>\<open>completed\<close>) the package is in \<open>skipped\<close> and not in
  \<open>completed\<close> afterwards; when it records any other success that is not a not-found
  outcome, the package is in \<open>completed\<close> and not in \<open>skipped\<close>. The membership of every
  other name in these two buckets is unchanged.
\<close>

theorem handler_moves_between_skipped_and_completed:
  assumes "success m"
      and "(alreadyConfigured m \<and> \<not> completedFlag m) \<or> \<not> notFound m"
  shows "(if alreadyConfigured m \<and> \<not> completedFlag m
          then packageName m \<in> set (skipped (state (handlePackageResult m w)))
               \<and> packageName m \<notin> set (completed (state (handlePackageResult m w)))
          else packageName m \<in> set (completed (state (handlePackageResult m w)))
               \<and> packageName m \<notin> set (skipped (state (handlePackageResult m w))))
       \<and> (\<forall>q. q \<noteq> packageName m \<longrightarrow>
             (q \<in> set (skipped (state (handlePackageResult m w))) \<longleftrightarrow> q \<in> set (skipped (state w)))
           \<and> (q \<in> set (completed (state (handlePackageResult m w))) \<longleftrightarrow> q \<in> set (completed (state w))))"
  using assms by (auto simp: handlePackageResult_buckets recordOutcome_def)

text \<open>A success report for a package that was in \<open>skipped\<close>.\<close>

theorem handler_moves_between_skipped_and_completed_witness:
  "success success_report_a
   \<and> \<not> notFound success_report_a
   \<and> skipped (state paused_report_run) = [''a'']
   \<and> ''a'' \<in> set (completed (state (handlePackageResult success_report_a paused_report_run)))
   \<and> ''a'' \<notin> set (skipped (state (handlePackageResult success_report_a paused_report_run)))"
proof -
  have h1: "success success_report_a"
    by (simp add: success_report_a_def packageResult_def)
  have h2: "(alreadyConfigured success_report_a \<and> \<not> completedFlag success_report_a)
            \<or> \<not> notFound success_report_a"
    by (simp add: success_report_a_def packageResult_def)
  have h3: "skipped (state paused_report_run) = [''a'']"
    by code_simp
  show ?thesis
    using h1 h3 handler_moves_between_skipped_and_completed [OF h1 h2, of paused_report_run]
    by (simp add: success_report_a_def packageResult_def)
qed

text \<open>
  C1, as stated, fails: with \<^verbatim>\<open>a\<close> in \<open>completed\<close>, the agent's write for a not-found page
  puts it into \<open>skipped\<close> and leaves it in \<open>completed\<close>, and so does the handler for a
  not-found report.
\<close>

theorem outcome_writes_leave_package_in_two_buckets:
  "completed (state observed_success_run) = [''a'']
   \<and> skipped (state observed_success_run) = []
   \<and> completed (state (step (PageLoad [not_found_page_a]) observed_success_run)) = [''a'']
   \<and> skipped (state (step (PageLoad [not_found_page_a]) observed_success_run)) = [''a'']
   \<and> completed (state (handlePackageResult not_found_report_a observed_success_run)) = [''a'']
   \<and> skipped (state (handlePackageResult not_found_report_a observed_success_run)) = [''a'']"
  by code_simp

text \<open>
  C8. For a running record, a page without a challenge, on the access path, whose package
  is the one at the cursor and which is a not-found page, \<open>handlePageLoad\<close> does this and
  nothing else: it stores the record with the package in \<open>skipped\<close> (added only if it was
  not there) and the cursor moved by one, with status \<open>idle\<close> if that was the last package,
  and otherwise schedules the navigation to the next package's page after 500 ms; then it
  sends the report with \<^verbatim>\<open>notFound: true\<close>. No event of the operator is involved.
\<close>

theorem not_found_page_is_skipped:
  assumes "status st = Running"
      and "\<not> hasTurnstileChallenge p"
      and "isAccessPage p"
      and "getPackageName p = Some name"
      and "name \<noteq> []"
      and "currentPackage st = Some name"
      and "isNotFoundPage p"
  shows "handlePageLoad (Some st) observing (p # later) =
           (if currentIndex st + 1 \<ge> length (packages st)
            then [StorageSet (st\<lparr>skipped := (if name \<in> set (skipped st) then skipped st
                                               else skipped st @ [name]),
                                 currentIndex := currentIndex st + 1,
                                 status := Idle\<rparr>)]
            else [StorageSet (st\<lparr>skipped := (if name \<in> set (skipped st) then skipped st
                                               else skipped st @ [name]),
                                 currentIndex := currentIndex st + 1\<rparr>),
                  NavigateAfter 500 (packageUrl (packages st ! (currentIndex st + 1)))])
           @ [SendMessage \<lparr>success = True, packageName = name, errorText = None,
                           alreadyConfigured = False, notFound = True, completedFlag = False,
                           waiting = False\<rparr>]"
  using assms
  by (simp add: classifyPage_def advance_def Let_def push_if_absent_def packageResult_def)

text \<open>The 404 page of \<^verbatim>\<open>a\<close>, first of two packages.\<close>

theorem not_found_page_is_skipped_witness:
  "status running_a_b = Running
   \<and> \<not> hasTurnstileChallenge not_found_page_a
   \<and> isAccessPage not_found_page_a
   \<and> getPackageName not_found_page_a = Some ''a''
   \<and> currentPackage running_a_b = Some ''a''
   \<and> isNotFoundPage not_found_page_a
   \<and> handlePageLoad (Some running_a_b) False [not_found_page_a] =
       [StorageSet (running_a_b\<lparr>skipped := [''a''], currentIndex := 1\<rparr>),
        NavigateAfter 500 ''https://www.npmjs.com/package/b/access'',
        SendMessage not_found_report_a]"
proof -
  have h1: "status running_a_b = Running" by code_simp
  have h2: "\<not> hasTurnstileChallenge not_found_page_a" by code_simp
  have h3: "isAccessPage not_found_page_a" by code_simp
  have h4: "getPackageName not_found_page_a = Some ''a''" by code_simp
  have h5: "''a'' \<noteq> []" by simp
  have h6: "currentPackage running_a_b = Some ''a''" by code_simp
  have h7: "isNotFoundPage not_found_page_a" by code_simp
  show ?thesis
    using h1 h2 h3 h4 h6 h7
      not_found_page_is_skipped [OF h1 h2 h3 h4 h5 h6 h7, of False "[]"]
    by (simp add: running_a_b_def packageUrl_def not_found_report_a_def packageResult_def)
qed


subsection \<open>Properties of the operations on the record\<close>

lemma writesOf_append [simp]: "writesOf (xs @ ys) = writesOf xs @ writesOf ys"
  by (induction xs rule: writesOf.induct) simp_all

lemma writesOf_fillForm [simp]: "writesOf (fillForm cfg p) = []"
proof -
  have "writesOf (map (\<lambda>(i, v). SetInput i v) xs) = []" for xs :: "(string \<times> string) list"
    by (induction xs) auto
  then show ?thesis by (simp add: fillForm_def)
qed

lemma writesOf_setupSuccessObserver [simp]: "writesOf (setupSuccessObserver observing name) = []"
  by (simp add: setupSuccessObserver_def)

lemma writesOf_waitingReport [simp]: "writesOf (waitingReport st) = []"
  by (simp add: waitingReport_def split: option.splits)

lemma writesOf_fillAndObserve [simp]: "writesOf (fillAndObserve st observing p name) = []"
  by (simp add: fillAndObserve_def)

lemma writesOf_advance:
  "writesOf (advance st) =
     [if currentIndex st + 1 \<ge> length (packages st)
      then st\<lparr>currentIndex := currentIndex st + 1, status := Idle\<rparr>
      else st\<lparr>currentIndex := currentIndex st + 1\<rparr>]"
  by (simp add: advance_def Let_def)

lemma currentPackage_Some:
  "currentPackage st = Some name \<longleftrightarrow>
     currentIndex st < length (packages st) \<and> packages st ! currentIndex st = name"
  by (auto simp: currentPackage_def nth_opt_def)

lemma advance_laterRecord:
  assumes "currentPackage st = Some name"
      and "packages st1 = packages st" "currentIndex st1 = currentIndex st"
      and "\<forall>q. inBucket st q \<longrightarrow> inBucket st1 q"
      and "name \<in> set (skipped st1) \<or> name \<in> set (completed st1)"
  shows "\<forall>st' \<in> set (writesOf (advance st1)). laterRecord st st'"
  using assms
  by (auto simp: writesOf_advance laterRecord_def inBucket_def)

lemma classifyPage_writes:
  "length (writesOf (classifyPage st observing p)) \<le> 1
   \<and> (\<forall>st' \<in> set (writesOf (classifyPage st observing p)). laterRecord st st')"
proof (cases "isAccessPage p")
  case False
  then show ?thesis by (simp add: classifyPage_def)
next
  case True
  show ?thesis
  proof (cases "getPackageName p")
    case None
    with True show ?thesis by (simp add: classifyPage_def)
  next
    case (Some name)
    show ?thesis
    proof (cases "name \<noteq> [] \<and> currentPackage st = Some name")
      case False
      with True Some show ?thesis by (auto simp: classifyPage_def)
    next
      case cur: True
      have sk: "\<forall>st' \<in> set (writesOf (advance (st\<lparr>skipped := push_if_absent (skipped st) name\<rparr>))).
                  laterRecord st st'"
        using cur by (intro advance_laterRecord [where name = name])
                     (auto simp: inBucket_def in_push_if_absent)
      have co: "\<forall>st' \<in> set (writesOf (advance (st\<lparr>completed := push_if_absent (completed st) name\<rparr>))).
                  laterRecord st st'"
        using cur by (intro advance_laterRecord [where name = name])
                     (auto simp: inBucket_def in_push_if_absent)
      have same: "name \<in> set (completed st) \<Longrightarrow>
                  \<forall>st' \<in> set (writesOf (advance st)). laterRecord st st'"
        using cur by (intro advance_laterRecord [where name = name])
                     (auto simp: inBucket_def)
      have len: "length (writesOf (advance x)) = 1" for x
        by (simp add: writesOf_advance)
      have del: "length (writesOf (deleteMode st observing p name)) \<le> 1
           \<and> (\<forall>st' \<in> set (writesOf (deleteMode st observing p name)). laterRecord st st')"
        using sk by (simp add: deleteMode_def len)
      have con: "length (writesOf (configureMode st observing p name)) \<le> 1
           \<and> (\<forall>st' \<in> set (writesOf (configureMode st observing p name)). laterRecord st st')"
        using sk same by (simp add: configureMode_def Let_def len)
      show ?thesis
        using True Some cur sk co del con
        by (simp add: classifyPage_def len)
    qed
  qed
qed

lemma handlePageLoad_writes:
  "length (writesOf (handlePageLoad (Some st) observing ps)) \<le> 1
   \<and> (\<forall>st' \<in> set (writesOf (handlePageLoad (Some st) observing ps)). laterRecord st st')"
proof (induction ps)
  case Nil
  then show ?case by simp
next
  case (Cons p ps)
  then show ?case
    using classifyPage_writes [of st observing p] by simp
qed

lemma observerMutation_writes:
  "length (writesOf (observerMutation p name (Some st))) \<le> 1
   \<and> (\<forall>st' \<in> set (writesOf (observerMutation p name (Some st))). laterRecord st st')"
  by (auto simp: observerMutation_def laterRecord_def inBucket_def in_push_if_absent
           split: option.splits)

lemma tabUpdated404_writes:
  "length (writesOf (tabUpdated404 (Some st))) \<le> 1
   \<and> (\<forall>st' \<in> set (writesOf (tabUpdated404 (Some st))). laterRecord st st')"
  by (auto simp: tabUpdated404_def handle404Skip_def Let_def laterRecord_def inBucket_def
                 in_push_if_absent
           split: option.splits)

lemma writerOp_writes:
  "\<forall>st' \<in> set (writesOf (writerOp y st)). laterRecord st st'"
  using handlePageLoad_writes observerMutation_writes tabUpdated404_writes
  by (cases y) simp_all

lemma state_processCurrentPackage:
  "state (processCurrentPackage w) =
     (if status (state w) = Running \<and> currentIndex (state w) \<ge> length (packages (state w))
      then (state w)\<lparr>status := Idle\<rparr> else state w)"
  by (simp add: processCurrentPackage_def Let_def)

lemma storage_processCurrentPackage:
  "storage (processCurrentPackage w) =
     (if status (state w) = Running \<and> currentIndex (state w) \<ge> length (packages (state w))
      then Some ((state w)\<lparr>status := Idle\<rparr>) else storage w)"
  by (simp add: processCurrentPackage_def Let_def)

lemma state_handlePause: "state (handlePause w) = (state w)\<lparr>status := Paused\<rparr>"
  by (simp add: handlePause_def)

lemma state_handleResume:
  "state (handleResume w) =
     (if currentIndex (state w) \<ge> length (packages (state w))
      then (state w)\<lparr>status := Idle\<rparr> else (state w)\<lparr>status := Running\<rparr>)"
  by (simp add: handleResume_def state_processCurrentPackage)

lemma nextRecorded_simps [simp]:
  "packages (nextRecorded s) = packages s"
  "currentIndex (nextRecorded s) = currentIndex s"
  "status (nextRecorded s) = status s"
  "failed (nextRecorded s) = failed s"
  "skipped (nextRecorded s) = skipped s"
  by (simp_all add: nextRecorded_def split: option.splits)

lemma state_handleNext:
  "state (handleNext w) =
     (if currentIndex (state w) + 1 \<ge> length (packages (state w))
      then (nextRecorded (state w))\<lparr>currentIndex := currentIndex (state w) + 1, status := Idle\<rparr>
      else (nextRecorded (state w))\<lparr>currentIndex := currentIndex (state w) + 1\<rparr>)"
  by (simp add: handleNext_def Let_def state_processCurrentPackage)

lemma recordOutcome_simps [simp]:
  "packages (fst (recordOutcome m s)) = packages s"
  "currentIndex (fst (recordOutcome m s)) = currentIndex s"
  "status (fst (recordOutcome m s)) = status s"
  "failed (fst (recordOutcome m s)) = failed s"
  "config (fst (recordOutcome m s)) = config s"
  by (simp_all add: recordOutcome_def)

lemma state_handlePackageResult:
  "state (handlePackageResult m w) =
     (if success m
      then
        (if (alreadyConfigured m \<or> notFound m \<or> navigationMode (config (state w)) = ''auto'')
            \<and> status (state w) = Running
         then (if currentIndex (state w) + 1 < length (packages (state w))
               then (fst (recordOutcome m (state w)))\<lparr>currentIndex := currentIndex (state w) + 1\<rparr>
               else (fst (recordOutcome m (state w)))
                      \<lparr>currentIndex := currentIndex (state w) + 1, status := Idle\<rparr>)
         else fst (recordOutcome m (state w)))
      else (state w)\<lparr>failed := push_if_absent (failed (state w)) (packageName m)\<rparr>)"
  by (auto simp: handlePackageResult_def Let_def)

lemma state_timerFired:
  "state (timerFired w) =
     (if status (state w) = Running \<and> currentIndex (state w) \<ge> length (packages (state w))
      then (state w)\<lparr>status := Idle\<rparr> else state w)"
  by (simp add: timerFired_def state_processCurrentPackage)

lemma storageWritten_simps [simp]:
  "state (storageWritten st w) = st"
  "storage (storageWritten st w) = Some st"
  "tabUrl (storageWritten st w) = tabUrl w"
  "timers (storageWritten st w) = timers w"
  "elements (storageWritten st w) = elements w"
  by (simp_all add: storageWritten_def storageChanged_def Let_def split: option.splits)






lemma state_packagesChanged:
  "state (packagesChanged w) = (state w)\<lparr>packages := parsePackages (el_packages (elements w))\<rparr>"
  by (simp add: packagesChanged_def)

lemma popupOp_cursor:
  "currentIndex (state w) \<le> currentIndex (state (popupOp x w))
   \<and> currentIndex (state (popupOp x w)) \<le> currentIndex (state w) + 1"
  by (cases x)
     (simp_all add: state_handlePause state_handleResume state_handleNext
        state_handlePackageResult state_timerFired state_packagesChanged)

lemma popupOp_storage:
  "storage (popupOp x w) = storage w \<or> storage (popupOp x w) = Some (state (popupOp x w))"
proof (cases x)
  case OpPause
  then show ?thesis by (simp add: handlePause_def)
next
  case OpResume
  then show ?thesis
    by (simp add: handleResume_def state_processCurrentPackage storage_processCurrentPackage)
next
  case OpNext
  then show ?thesis
    by (simp add: handleNext_def Let_def state_processCurrentPackage
          storage_processCurrentPackage)
next
  case (OpReport m)
  then show ?thesis by (simp add: handlePackageResult_def Let_def)
next
  case OpTimer
  then show ?thesis
    by (simp add: timerFired_def state_processCurrentPackage storage_processCurrentPackage)
next
  case OpPackagesChanged
  then show ?thesis by (simp add: packagesChanged_def)
next
  case OpSaveConfig
  then show ?thesis by simp
qed



lemma pause_resume_unchanged:
  assumes "x = OpPause \<or> x = OpResume"
  shows "currentIndex (state (popupOp x w)) = currentIndex (state w)
       \<and> completed (state (popupOp x w)) = completed (state w)
       \<and> failed (state (popupOp x w)) = failed (state w)
       \<and> skipped (state (popupOp x w)) = skipped (state w)"
  using assms by (auto simp: state_handlePause state_handleResume)

lemma handleResume_navigates:
  "(if currentIndex (state w) < length (packages (state w))
    then status (state (handleResume w)) = Running
         \<and> tabUrl (handleResume w)
             = Some (packageUrl (packages (state w) ! currentIndex (state w)))
    else status (state (handleResume w)) = Idle \<and> tabUrl (handleResume w) = tabUrl w)"
  by (simp add: handleResume_def processCurrentPackage_def Let_def)

text \<open>
  C7, as amended. Every operation of a run writes either the cursor of the record it
  works on or that cursor plus one, never a smaller one: a handler of the popup, on the
  popup's state (and what it stores, if it stores, is that state); a pass of the agent,
  the observer or the coordinator, on the record it read. \<open>pause\<close> and \<open>resume\<close> leave the
  cursor and the three buckets unchanged. \<open>resume\<close> sets the status to running and sends
  the tab to the page of the package at the cursor when the cursor is within the list;
  when it is not, it sets the status to idle and navigates nowhere.
\<close>

theorem operations_never_write_a_smaller_cursor:
  "currentIndex (state w) \<le> currentIndex (state (popupOp x w))
   \<and> currentIndex (state (popupOp x w)) \<le> currentIndex (state w) + 1
   \<and> (storage (popupOp x w) = storage w \<or> storage (popupOp x w) = Some (state (popupOp x w)))
   \<and> (\<forall>st' \<in> set (writesOf (writerOp y st)).
         currentIndex st \<le> currentIndex st' \<and> currentIndex st' \<le> currentIndex st + 1)
   \<and> (x = OpPause \<or> x = OpResume \<longrightarrow>
         currentIndex (state (popupOp x w)) = currentIndex (state w)
       \<and> completed (state (popupOp x w)) = completed (state w)
       \<and> failed (state (popupOp x w)) = failed (state w)
       \<and> skipped (state (popupOp x w)) = skipped (state w))
   \<and> (if currentIndex (state w) < length (packages (state w))
       then status (state (handleResume w)) = Running
            \<and> tabUrl (handleResume w)
                = Some (packageUrl (packages (state w) ! currentIndex (state w)))
       else status (state (handleResume w)) = Idle \<and> tabUrl (handleResume w) = tabUrl w)"
proof -
  have writers: "\<forall>st' \<in> set (writesOf (writerOp y st)).
         currentIndex st \<le> currentIndex st' \<and> currentIndex st' \<le> currentIndex st + 1"
    using writerOp_writes [of y st] by (auto simp: laterRecord_def)
  show ?thesis
    using popupOp_cursor [of w x] popupOp_storage [of x w] writers
          pause_resume_unchanged [of x w] handleResume_navigates [of w]
    by blast
qed

text \<open>
  A paused run of two packages, resumed; and the agent's pass on the 404 page of \<^verbatim>\<open>a\<close>.
\<close>

theorem operations_never_write_a_smaller_cursor_witness:
  "status (state (run [Pause] started_a_b)) = Paused
   \<and> currentIndex (state (run [Pause] started_a_b)) = 0
   \<and> currentIndex (state (popupOp OpResume (run [Pause] started_a_b))) = 0
   \<and> status (state (handleResume (run [Pause] started_a_b))) = Running
   \<and> tabUrl (handleResume (run [Pause] started_a_b))
        = Some ''https://www.npmjs.com/package/a/access''
   \<and> map currentIndex (writesOf (writerOp (AgentPass False [not_found_page_a]) running_a_b))
        = [1]"
proof -
  have p: "status (state (run [Pause] started_a_b)) = Paused" by code_simp
  have c: "currentIndex (state (run [Pause] started_a_b)) = 0" by code_simp
  have n: "packages (state (run [Pause] started_a_b)) = [''a'', ''b'']" by code_simp
  have a: "map currentIndex (writesOf (writerOp (AgentPass False [not_found_page_a]) running_a_b))
            = [1]"
    by code_simp
  show ?thesis
    using p c n a
      operations_never_write_a_smaller_cursor
        [of "run [Pause] started_a_b" OpResume "AgentPass False [not_found_page_a]" running_a_b]
    by (simp add: packageUrl_def)
qed

text \<open>
  C7, as stated, fails. The stored cursor goes back: the observer read the record with
  the cursor at 0, the popup handled the observer's report and moved the cursor to 1
  (stored), and then the observer's write landed, from the record it had read; the popup
  adopts what is stored. And \<open>resume\<close> of a paused run whose package field was cut down
  below the cursor ends the run and navigates nowhere.
\<close>

theorem late_write_moves_the_cursor_back:
  "storage auto_started = Some (state auto_started)
   \<and> currentIndex (state auto_started) = 0
   \<and> currentIndex (state report_handled) = 1
   \<and> storage report_handled = Some (state report_handled)
   \<and> currentIndex (state late_write_landed) = 0
   \<and> storage late_write_landed = Some (state late_write_landed)
   \<and> status (state paused_and_cut) = Paused
   \<and> packages (state paused_and_cut) = [''a'']
   \<and> currentIndex (state paused_and_cut) = 1
   \<and> status (state (step Resume paused_and_cut)) = Idle
   \<and> tabUrl (step Resume paused_and_cut) = tabUrl paused_and_cut"
  by code_simp






end
